theory Spec2Isabelle
  imports Main "HOL-Library.AList"
begin

section \<open>Python string operations used by the analyzers\<close>

text \<open>
  Source text is modelled as \<open>string\<close>. Only the string methods the analyzers call are
  defined: \<open>str.strip/lstrip/rstrip(chars)\<close>, \<open>str.startswith\<close>, \<open>str.split(sep)\<close>,
  \<open>str.upper\<close> (on the ASCII letters), the substring test \<open>in\<close>, and
  \<open>str.replace("//", "/")\<close>.
\<close>

definition lstrip :: "string \<Rightarrow> string \<Rightarrow> string" where
  "lstrip chars s = dropWhile (\<lambda>c. c \<in> set chars) s"

definition rstrip :: "string \<Rightarrow> string \<Rightarrow> string" where
  "rstrip chars s = rev (dropWhile (\<lambda>c. c \<in> set chars) (rev s))"

definition strip :: "string \<Rightarrow> string \<Rightarrow> string" where
  "strip chars s = rstrip chars (lstrip chars s)"

definition startswith :: "string \<Rightarrow> string \<Rightarrow> bool" where
  "startswith s p = (take (length p) s = p)"

fun contains :: "string \<Rightarrow> string \<Rightarrow> bool" where
  "contains [] p = (p = [])"
| "contains (c # cs) p = (startswith (c # cs) p \<or> contains cs p)"

fun split_on :: "char \<Rightarrow> string \<Rightarrow> string list" where
  "split_on d [] = [[]]"
| "split_on d (c # cs) =
     (if c = d then [] # split_on d cs
      else (case split_on d cs of [] \<Rightarrow> [[c]] | w # ws \<Rightarrow> (c # w) # ws))"

definition upper_char :: "char \<Rightarrow> char" where
  "upper_char c =
     (case map_of (zip ''abcdefghijklmnopqrstuvwxyz'' ''ABCDEFGHIJKLMNOPQRSTUVWXYZ'') c of
        None \<Rightarrow> c | Some u \<Rightarrow> u)"

definition upper :: "string \<Rightarrow> string" where
  "upper s = map upper_char s"

text \<open>
  \<open>s.replace("//", "/")\<close>: one scan from the left; each occurrence found is replaced and
  the scan resumes after it, so the replacement text is never scanned again.
\<close>

fun replace_dslash :: "string \<Rightarrow> string" where
  "replace_dslash (a # b # cs) =
     (if a = CHR ''/'' \<and> b = CHR ''/'' then CHR ''/'' # replace_dslash cs
      else a # replace_dslash (b # cs))"
| "replace_dslash cs = cs"

text \<open>The decimal digits of a number, as an f-string renders it.\<close>

fun show_nat :: "nat \<Rightarrow> string" where
  "show_nat n =
     (if n < 10 then [''0123456789'' ! n]
      else show_nat (n div 10) @ [''0123456789'' ! (n mod 10)])"

declare show_nat.simps [simp del]

definition dquote :: string where "dquote = [CHR 0x22]"
definition squote :: string where "squote = [CHR 0x27]"
definition backtick :: string where "backtick = [CHR 0x60]"

text \<open>
  \<open>list(set(xs))\<close>: the distinct elements of \<open>xs\<close>. The order Python gives them is fixed by
  the interpreter's hashing; the model lists them by first occurrence, and no theorem below
  depends on that order.
\<close>

definition list_set :: "string list \<Rightarrow> string list" where
  "list_set xs = remdups xs"


section \<open>The domain model (models.py)\<close>

datatype ParamType = PATH | QUERY | BODY | HEADER | COOKIE

record APIParameter =
  name :: string
  param_type :: ParamType
  data_type :: string
  required :: bool

record APIEndpoint =
  file_path :: string
  handler_name :: string
  http_method :: string
  path :: string
  line_number :: nat
  snippet :: string
  parameters :: "APIParameter list"
  auth_mechanisms :: "string list"

text \<open>The exceptions an analyzer can raise.\<close>

datatype error = AttributeError | KeyError | ValidationError


section \<open>Syntax trees and the query executor (parsers/base.py)\<close>

text \<open>
  A tree-sitter node: its \<open>type\<close>, the field name under which its parent holds it,
  \<open>is_named\<close>, \<open>start_byte\<close>, the row of \<open>start_point\<close>, the source text it spans
  (what \<open>get_node_text\<close> returns for it) and its children.
\<close>

datatype node = Node
  (ntype: string) (nfield: "string option") (is_named: bool)
  (start_byte: nat) (start_row: nat) (ntext: string) (children: "node list")

text \<open>
  A node handle, as the Python objects are: the node together with its identity, which is
  its path of child indices from the root (\<open>node.id\<close>). \<open>node.parent\<close> needs the tree.
\<close>

type_synonym cur = "nat list \<times> node"

definition kids :: "cur \<Rightarrow> cur list" where
  "kids c = map (\<lambda>(i, n). (fst c @ [i], n)) (enumerate 0 (children (snd c)))"

definition child_of_type :: "cur \<Rightarrow> string \<Rightarrow> cur option" where
  "child_of_type c ty = find (\<lambda>k. ntype (snd k) = ty) (kids c)"

definition child_by_field_name :: "cur \<Rightarrow> string \<Rightarrow> cur option" where
  "child_by_field_name c f = find (\<lambda>k. nfield (snd k) = Some f) (kids c)"

fun node_at :: "node \<Rightarrow> nat list \<Rightarrow> node option" where
  "node_at t [] = Some t"
| "node_at t (i # js) = (if i < length (children t) then node_at (children t ! i) js else None)"

definition parent :: "node \<Rightarrow> cur \<Rightarrow> cur option" where
  "parent t c =
     (if fst c = [] then None
      else map_option (\<lambda>n. (butlast (fst c), n)) (node_at t (butlast (fst c))))"

text \<open>
  The loop \<open>while n and not stop(n): n = n.parent\<close>: the nearest of the node and its
  ancestors that satisfies \<open>stop\<close>, or \<open>None\<close>.
\<close>

function climb :: "node \<Rightarrow> (cur \<Rightarrow> bool) \<Rightarrow> cur \<Rightarrow> cur option" where
  "climb t stop c =
     (if stop c then Some c
      else (case parent t c of None \<Rightarrow> None | Some p \<Rightarrow> climb t stop p))"
  by pat_completeness auto
termination
  by (relation "measure (\<lambda>(t, stop, c). length (fst c))")
     (auto simp: parent_def split: if_splits)

declare climb.simps [simp del]

text \<open>
  The queries of the three analyzers, one constructor per query string of the source.
\<close>

datatype query =
    PyRouteQuery | PyParamQuery
  | JavaClassQuery | JavaBasePathQuery | JavaMethodQuery | JavaAnnotationQuery
  | JavaParamQuery | JavaSwaggerQuery | JavaAuthQuery
  | NodeRouteQuery | NodeBodyQuery

text \<open>
  \<open>execute_query(node, query_str, lang)\<close> hands the query to the tree-sitter library and
  returns its captures. The library is not part of the repository: the analyzers take the
  executor as their first argument, and the general theorems hold for every executor.
\<close>

type_synonym capture = "cur \<times> string"
type_synonym executor = "cur \<Rightarrow> query \<Rightarrow> string \<Rightarrow> capture list"

record analyzer =
  language_name :: string
  root_node :: node

text \<open>
  Grouping a capture stream by the start byte of the nearest enclosing node of one of the
  given kinds: the loop
  \<open>d.setdefault(boundary.start_byte, {})[name] = node\<close>. Dictionaries keep insertion order;
  a later capture with the same label replaces the earlier one.
\<close>

type_synonym groups = "(nat \<times> (string \<times> cur) list) list"

definition group_put :: "nat \<Rightarrow> string \<Rightarrow> cur \<Rightarrow> groups \<Rightarrow> groups" where
  "group_put k nm c d =
     AList.update k (AList.update nm c (case map_of d k of None \<Rightarrow> [] | Some inner \<Rightarrow> inner)) d"

definition correlate :: "node \<Rightarrow> string list \<Rightarrow> capture list \<Rightarrow> groups" where
  "correlate t boundary caps =
     foldl (\<lambda>d (n, nm).
              (case climb t (\<lambda>c. ntype (snd c) \<in> set boundary) n of
                 None \<Rightarrow> d
               | Some a \<Rightarrow> group_put (start_byte (snd a)) nm n d))
           [] caps"


section \<open>The Java analyzer (parsers/java.py)\<close>

text \<open>\<open>_collect_string_literals\<close>; the call sites pass \<open>None\<close> as the empty list.\<close>

fun collect_string_literals :: "node \<Rightarrow> string list" where
  "collect_string_literals (Node ty fld nmd sb sr tx cs) =
     (if ty = ''string_literal'' then [strip dquote tx]
      else concat (map collect_string_literals cs))"

definition collect_string_literals_opt :: "cur option \<Rightarrow> string list" where
  "collect_string_literals_opt a =
     (case a of None \<Rightarrow> [] | Some c \<Rightarrow> collect_string_literals (snd c))"

definition annotation_kinds :: "string list" where
  "annotation_kinds = [''annotation'', ''marker_annotation'']"

text \<open>\<open>_find_class_base_path\<close>: the loop over \<open>annot_nodes.values()\<close>, then the method.\<close>

fun base_path_scan :: "(string \<times> cur) list list \<Rightarrow> string" where
  "base_path_scan [] = []"
| "base_path_scan (data # rest) =
     (case map_of data ''anno_name'' of
        None \<Rightarrow> base_path_scan rest
      | Some a \<Rightarrow>
          (if ntext (snd a) \<in> set [''RequestMapping'', ''Path'']
           then (case map_of data ''args'' of
                   None \<Rightarrow> base_path_scan rest
                 | Some args \<Rightarrow>
                     (case collect_string_literals (snd args) of
                        [] \<Rightarrow> [] | l # ls \<Rightarrow> l))
           else base_path_scan rest))"

definition find_class_base_path :: "executor \<Rightarrow> analyzer \<Rightarrow> cur \<Rightarrow> string" where
  "find_class_base_path Q self class_node =
     (case child_of_type class_node ''modifiers'' of
        None \<Rightarrow> []
      | Some modifiers \<Rightarrow>
          base_path_scan
            (map snd (correlate (root_node self) annotation_kinds
                        (Q modifiers JavaBasePathQuery (language_name self)))))"

text \<open>\<open>_find_auth_annotations\<close> and \<open>_find_class_auth\<close>.\<close>

definition auth_names :: "string list" where
  "auth_names = [''PreAuthorize'', ''RolesAllowed'', ''Secured'', ''PermitAll'', ''DenyAll'',
                 ''SecurityRequirement'', ''SecurityRequirements'', ''PermissionRequired'']"

definition find_auth_annotations :: "executor \<Rightarrow> analyzer \<Rightarrow> cur option \<Rightarrow> string list" where
  "find_auth_annotations Q self modifiers_node =
     (case modifiers_node of
        None \<Rightarrow> []
      | Some m \<Rightarrow>
          list_set
            (map (\<lambda>(n, nm). ntext (snd n))
               (filter (\<lambda>(n, nm). nm = ''auth_name'' \<and> ntext (snd n) \<in> set auth_names)
                  (Q m JavaAuthQuery (language_name self)))))"

definition find_class_auth :: "executor \<Rightarrow> analyzer \<Rightarrow> cur \<Rightarrow> string list" where
  "find_class_auth Q self class_node =
     find_auth_annotations Q self (child_of_type class_node ''modifiers'')"

text \<open>\<open>_parse_java_parameters\<close>.\<close>

definition java_param_kind :: "string \<Rightarrow> ParamType" where
  "java_param_kind annotation =
     (if annotation \<in> set [''PathVariable'', ''PathParam''] then PATH
      else if annotation \<in> set [''RequestParam'', ''QueryParam''] then QUERY
      else if annotation \<in> set [''RequestHeader'', ''HeaderParam''] then HEADER
      else if annotation \<in> set [''CookieValue'', ''CookieParam''] then COOKIE
      else BODY)"

definition formal_parameter :: "(string \<times> cur) list \<Rightarrow> APIParameter option" where
  "formal_parameter data =
     (case (map_of data ''param_name'', map_of data ''param_type'') of
        (Some pn, Some pt) \<Rightarrow>
          Some \<lparr> name = ntext (snd pn),
                 param_type = java_param_kind
                   (case map_of data ''param_annotation'' of
                      None \<Rightarrow> [] | Some a \<Rightarrow> ntext (snd a)),
                 data_type = ntext (snd pt),
                 required = True \<rparr>
      | _ \<Rightarrow> None)"

definition swagger_param :: APIParameter where
  "swagger_param = \<lparr> name = ''swagger_param'', param_type = QUERY, data_type = [], required = False \<rparr>"

definition swagger_hits :: "executor \<Rightarrow> analyzer \<Rightarrow> cur \<Rightarrow> capture list" where
  "swagger_hits Q self method_modifiers =
     filter (\<lambda>(n, nm). nm = ''anno_name'' \<and> ntext (snd n) = ''Parameter'')
       (Q method_modifiers JavaSwaggerQuery (language_name self))"

definition parse_java_parameters ::
    "executor \<Rightarrow> analyzer \<Rightarrow> cur option \<Rightarrow> cur \<Rightarrow> APIParameter list" where
  "parse_java_parameters Q self params_node method_node =
     (case params_node of
        None \<Rightarrow> []
      | Some ps \<Rightarrow>
          List.map_filter formal_parameter
            (map snd (correlate (root_node self) [''formal_parameter'']
                        (Q ps JavaParamQuery (language_name self))))
          @ (case child_of_type method_node ''modifiers'' of
               None \<Rightarrow> []
             | Some method_modifiers \<Rightarrow>
                 map (\<lambda>h. swagger_param) (swagger_hits Q self method_modifiers)))"

text \<open>\<open>_find_methods\<close>: the tables, the three loops over one method, then the method loop.\<close>

definition method_mappings :: "(string \<times> string) list" where
  "method_mappings =
     [(''GetMapping'', ''GET''), (''PostMapping'', ''POST''), (''PutMapping'', ''PUT''),
      (''DeleteMapping'', ''DELETE''), (''PatchMapping'', ''PATCH''), (''RequestMapping'', ''ANY''),
      (''GET'', ''GET''), (''POST'', ''POST''), (''PUT'', ''PUT''), (''DELETE'', ''DELETE''),
      (''PATCH'', ''PATCH'')]"

definition path_annotations :: "string list" where
  "path_annotations = [''RequestMapping'', ''GetMapping'', ''PostMapping'', ''PutMapping'',
                       ''DeleteMapping'', ''PatchMapping'', ''Path'']"

type_synonym annot_state = "(string \<times> cur option) list \<times> string \<times> bool"

definition annot_step :: "annot_state \<Rightarrow> (string \<times> cur) list \<Rightarrow> annot_state" where
  "annot_step st data =
     (case st of (annot_list, method_type, has_endpoint_annotation) \<Rightarrow>
        (case map_of data ''method_annotation'' of
           None \<Rightarrow> st
         | Some a \<Rightarrow>
             (let annot_name = ntext (snd a);
                  annot_list' = annot_list @ [(annot_name, map_of data ''annotation_args'')];
                  has' = (has_endpoint_annotation \<or> annot_name \<in> set path_annotations)
              in (case map_of method_mappings annot_name of
                    None \<Rightarrow> (annot_list', method_type, has')
                  | Some new_method \<Rightarrow>
                      (annot_list',
                       (if new_method \<noteq> ''ANY'' then new_method else method_type),
                       True)))))"

fun collect_paths :: "string \<Rightarrow> (string \<times> cur option) list \<Rightarrow> string list" where
  "collect_paths method_type [] = []"
| "collect_paths method_type ((annot_name, args_node) # rest) =
     (if annot_name \<in> set path_annotations
      then (if annot_name = ''Path'' \<and> method_type \<noteq> ''ANY''
            then collect_string_literals_opt args_node
            else collect_string_literals_opt args_node @ collect_paths method_type rest)
      else collect_paths method_type rest)"

definition full_path :: "string \<Rightarrow> string \<Rightarrow> string" where
  "full_path base_path pth =
     (let fp = rstrip ''/'' (replace_dslash (base_path @ ''/'' @ pth))
      in if fp = [] then ''/'' else fp)"

definition method_annotations :: "executor \<Rightarrow> analyzer \<Rightarrow> cur \<Rightarrow> annot_state" where
  "method_annotations Q self modifiers_node =
     foldl annot_step ([], ''ANY'', False)
       (map snd (correlate (root_node self) annotation_kinds
                   (Q modifiers_node JavaAnnotationQuery (language_name self))))"

definition method_paths :: "annot_state \<Rightarrow> string list" where
  "method_paths st =
     (case st of (annot_list, method_type, has_endpoint_annotation) \<Rightarrow>
        (let paths = collect_paths method_type annot_list
         in if paths = [] then [[]] else paths))"

definition method_endpoints ::
    "executor \<Rightarrow> analyzer \<Rightarrow> string \<Rightarrow> string list \<Rightarrow> cur \<Rightarrow> APIEndpoint list" where
  "method_endpoints Q self base_path class_auth method_node =
     (case (child_of_type method_node ''modifiers'', child_by_field_name method_node ''name'') of
        (Some modifiers_node, Some handler_name_node) \<Rightarrow>
          (let st = method_annotations Q self modifiers_node
           in (case st of (annot_list, method_type, has_endpoint_annotation) \<Rightarrow>
                 if \<not> has_endpoint_annotation then []
                 else
                   (let all_auth = list_set (class_auth
                                     @ find_auth_annotations Q self (Some modifiers_node))
                    in map (\<lambda>pth.
                              \<lparr> file_path = [],
                                handler_name = ntext (snd handler_name_node),
                                http_method = method_type,
                                path = full_path base_path pth,
                                line_number = start_row (snd method_node) + 1,
                                snippet = ntext (snd method_node),
                                parameters = parse_java_parameters Q self
                                  (child_by_field_name method_node ''parameters'') method_node,
                                auth_mechanisms = all_auth \<rparr>)
                           (method_paths st))))
      | _ \<Rightarrow> [])"

definition find_methods ::
    "executor \<Rightarrow> analyzer \<Rightarrow> cur \<Rightarrow> string \<Rightarrow> string list \<Rightarrow> APIEndpoint list" where
  "find_methods Q self class_body base_path class_auth =
     concat (map (\<lambda>(method_node, nm). method_endpoints Q self base_path class_auth method_node)
               (Q class_body JavaMethodQuery (language_name self)))"

text \<open>\<open>JavaAnalyzer.analyze\<close>: the loop over the class captures with its set of processed
  start bytes.\<close>

fun java_classes :: "executor \<Rightarrow> analyzer \<Rightarrow> capture list \<Rightarrow> nat list \<Rightarrow> APIEndpoint list" where
  "java_classes Q self [] processed = []"
| "java_classes Q self ((class_node, capture_name) # rest) processed =
     (if capture_name = ''class_node'' \<and> start_byte (snd class_node) \<notin> set processed
      then (case child_of_type class_node ''class_body'' of
              None \<Rightarrow> []
            | Some class_body \<Rightarrow>
                find_methods Q self class_body
                  (find_class_base_path Q self class_node) (find_class_auth Q self class_node))
           @ java_classes Q self rest (start_byte (snd class_node) # processed)
      else java_classes Q self rest processed)"

definition java_analyze :: "executor \<Rightarrow> analyzer \<Rightarrow> APIEndpoint list" where
  "java_analyze Q self =
     java_classes Q self (Q ([], root_node self) JavaClassQuery (language_name self)) []"


section \<open>The Node.js analyzer (parsers/nodejs.py)\<close>

text \<open>
  The first loop of \<open>NodeJSAnalyzer.analyze\<close>: captures are grouped by the start byte of
  the nearest enclosing \<open>call_expression\<close>; a group starts as
  \<open>{"endpoint_node": endpoint_node}\<close> and the first capture of each label is kept.
\<close>

definition node_group_put :: "cur \<Rightarrow> string \<Rightarrow> cur \<Rightarrow> groups \<Rightarrow> groups" where
  "node_group_put endpoint_node capture_name n d =
     (let node_id = start_byte (snd endpoint_node);
          inner = (case map_of d node_id of
                     None \<Rightarrow> [(''endpoint_node'', endpoint_node)] | Some i \<Rightarrow> i)
      in AList.update node_id
           (if map_of inner capture_name = None then inner @ [(capture_name, n)] else inner) d)"

definition node_captures :: "node \<Rightarrow> capture list \<Rightarrow> groups" where
  "node_captures t caps =
     foldl (\<lambda>d (n, capture_name).
              (case climb t (\<lambda>c. ntype (snd c) = ''call_expression'') n of
                 None \<Rightarrow> d
               | Some endpoint_node \<Rightarrow> node_group_put endpoint_node capture_name n d))
           [] caps"

text \<open>\<open>_parse_node_parameters\<close>. Building an \<open>APIParameter\<close> whose \<open>param_type\<close> is
  \<open>None\<close> fails the model's validation.\<close>

definition param_map :: "(string \<times> ParamType) list" where
  "param_map = [(''query'', QUERY), (''params'', PATH), (''body'', BODY)]"

definition path_parameters :: "string \<Rightarrow> APIParameter list" where
  "path_parameters pth =
     map (\<lambda>part. \<lparr> name = lstrip '':'' part, param_type = PATH,
                    data_type = ''Any'', required = True \<rparr>)
         (filter (\<lambda>part. startswith part '':'') (split_on CHR ''/'' pth))"

fun scan_handler ::
    "capture list \<Rightarrow> APIParameter list \<Rightarrow> (string \<times> ParamType option) list \<Rightarrow> ParamType option
       \<Rightarrow> error + (APIParameter list \<times> (string \<times> ParamType option) list)" where
  "scan_handler [] ps found_params current_type = Inr (ps, found_params)"
| "scan_handler ((n, nm) # rest) ps found_params current_type =
     (if nm = ''param_type''
      then scan_handler rest ps found_params (map_of param_map (ntext (snd n)))
      else if nm = ''param_name''
      then (if (ntext (snd n), current_type) \<notin> set found_params
            then (case current_type of
                    None \<Rightarrow> Inl ValidationError
                  | Some ty \<Rightarrow>
                      scan_handler rest
                        (ps @ [\<lparr> name = ntext (snd n), param_type = ty,
                                 data_type = ''Any'', required = False \<rparr>])
                        ((ntext (snd n), current_type) # found_params) current_type)
            else scan_handler rest ps found_params current_type)
      else scan_handler rest ps found_params current_type)"

definition body_param :: APIParameter where
  "body_param = \<lparr> name = ''body'', param_type = BODY, data_type = ''Object'', required = False \<rparr>"

definition parse_node_parameters ::
    "executor \<Rightarrow> analyzer \<Rightarrow> cur option \<Rightarrow> string \<Rightarrow> error + APIParameter list" where
  "parse_node_parameters Q self handler_node pth =
     (case handler_node of
        None \<Rightarrow> Inr []
      | Some h \<Rightarrow>
          (let ps = path_parameters pth
           in (case scan_handler (Q h NodeRouteQuery (language_name self)) ps
                       (map (\<lambda>p. (name p, Some (param_type p))) ps) None of
                 Inl e \<Rightarrow> Inl e
               | Inr (ps', found_params) \<Rightarrow>
                   (if Q h NodeBodyQuery (language_name self) \<noteq> []
                       \<and> (''body'', Some BODY) \<notin> set found_params
                    then Inr (ps' @ [body_param])
                    else Inr ps'))))"

text \<open>The second loop of \<open>analyze\<close>, for one group: the path is the first named argument of
  type \<open>string_literal\<close> or \<open>string\<close>, the handler the last one of a handler kind.\<close>

definition arg_children :: "cur \<Rightarrow> cur list" where
  "arg_children args_node = filter (\<lambda>child. is_named (snd child)) (kids args_node)"

definition route_path :: "cur list \<Rightarrow> string" where
  "route_path args =
     (case find (\<lambda>child. ntype (snd child) \<in> set [''string_literal'', ''string'']) args of
        None \<Rightarrow> []
      | Some child \<Rightarrow> strip (squote @ dquote @ backtick) (ntext (snd child)))"

definition route_handler :: "cur list \<Rightarrow> cur option" where
  "route_handler args =
     find (\<lambda>child. ntype (snd child) \<in> set [''arrow_function'', ''function_expression'', ''identifier''])
          (rev args)"

definition route_handler_name :: "cur option \<Rightarrow> string" where
  "route_handler_name handler_node =
     (case handler_node of
        None \<Rightarrow> ''unknown_handler''
      | Some h \<Rightarrow>
          (if ntype (snd h) = ''identifier'' then ntext (snd h)
           else ''anonymous_handler_L'' @ show_nat (start_row (snd h) + 1)))"

definition node_endpoint ::
    "executor \<Rightarrow> analyzer \<Rightarrow> (string \<times> cur) list \<Rightarrow> error + APIEndpoint option" where
  "node_endpoint Q self data =
     (case map_of data ''endpoint_node'' of
        None \<Rightarrow> Inl KeyError
      | Some endpoint_node \<Rightarrow>
          (case (map_of data ''method'', map_of data ''args'') of
             (Some method_node, Some args_node) \<Rightarrow>
               (let pth = route_path (arg_children args_node);
                    handler_node = route_handler (arg_children args_node)
                in if pth = [] then Inr None
                   else (case parse_node_parameters Q self handler_node pth of
                           Inl e \<Rightarrow> Inl e
                         | Inr ps \<Rightarrow>
                             Inr (Some \<lparr> file_path = [],
                                         handler_name = route_handler_name handler_node,
                                         http_method = upper (ntext (snd method_node)),
                                         path = pth,
                                         line_number = start_row (snd endpoint_node) + 1,
                                         snippet = ntext (snd endpoint_node),
                                         parameters = ps,
                                         auth_mechanisms = [] \<rparr>)))
           | _ \<Rightarrow> Inr None))"

fun node_endpoints ::
    "executor \<Rightarrow> analyzer \<Rightarrow> (string \<times> cur) list list \<Rightarrow> error + APIEndpoint list" where
  "node_endpoints Q self [] = Inr []"
| "node_endpoints Q self (data # rest) =
     (case node_endpoint Q self data of
        Inl e \<Rightarrow> Inl e
      | Inr r \<Rightarrow>
          (case node_endpoints Q self rest of
             Inl e \<Rightarrow> Inl e
           | Inr es \<Rightarrow> Inr ((case r of None \<Rightarrow> [] | Some e \<Rightarrow> [e]) @ es)))"

definition nodejs_analyze :: "executor \<Rightarrow> analyzer \<Rightarrow> error + APIEndpoint list" where
  "nodejs_analyze Q self =
     node_endpoints Q self
       (map snd (node_captures (root_node self)
                   (Q ([], root_node self) NodeRouteQuery (language_name self))))"


section \<open>The Python analyzer (parsers/python.py)\<close>

text \<open>\<open>_create_python_parameter\<close>, on the dictionary \<open>param_data\<close> the parameter loop
  builds (its \<open>"node"\<close> entry is never read).\<close>

record param_data =
  pd_name :: "string option"
  pd_type :: "string option"
  pd_default :: "string option"
  pd_required :: bool

definition lower :: "string \<Rightarrow> string" where
  "lower s =
     map (\<lambda>c. case map_of (zip ''ABCDEFGHIJKLMNOPQRSTUVWXYZ'' ''abcdefghijklmnopqrstuvwxyz'') c of
                 None \<Rightarrow> c | Some l \<Rightarrow> l) s"

definition create_python_parameter :: "string \<Rightarrow> param_data \<Rightarrow> APIParameter" where
  "create_python_parameter nm pd =
     (let dt = (case pd_type pd of None \<Rightarrow> ''Any'' | Some ty \<Rightarrow> ty);
          default_val = (case pd_default pd of None \<Rightarrow> [] | Some d \<Rightarrow> d);
          (pt, req) =
            (if startswith default_val ''Path('' then (PATH, \<not> contains default_val ''...'')
             else if startswith default_val ''Query('' then (QUERY, \<not> contains default_val ''...'')
             else if startswith default_val ''Body('' then (BODY, \<not> contains default_val ''...'')
             else if \<not> pd_required pd then (QUERY, pd_required pd)
             else if lower dt \<in> set [''int'', ''str'', ''float'', ''bool'', ''any'']
                  then (QUERY, pd_required pd)
             else (BODY, pd_required pd))
      in \<lparr> name = nm, param_type = pt, data_type = dt, required = req \<rparr>)"

text \<open>\<open>_parse_python_parameters\<close>: the state of the loop is the list built so far, the
  start byte of the current parameter node and the current \<open>param_data\<close>.\<close>

definition flush_param :: "param_data \<Rightarrow> APIParameter list" where
  "flush_param pd =
     (case pd_name pd of None \<Rightarrow> [] | Some nm \<Rightarrow> [create_python_parameter nm pd])"

definition empty_param :: param_data where
  "empty_param = \<lparr> pd_name = None, pd_type = None, pd_default = None, pd_required = True \<rparr>"

type_synonym param_state = "APIParameter list \<times> nat option \<times> param_data"

definition param_step :: "node \<Rightarrow> param_state \<Rightarrow> capture \<Rightarrow> param_state" where
  "param_step t st cap =
     (case (st, cap) of ((ps, current_id, pd), (n, nm)) \<Rightarrow>
        (case climb t (\<lambda>c. ntype (snd c) \<in> set [''typed_parameter'', ''default_parameter'',
                                                  ''identifier'']) n of
           None \<Rightarrow> st
         | Some param_node \<Rightarrow>
             (if ntype (snd param_node) = ''identifier'' \<and> nm = ''param_name''
              then (if Some (start_byte (snd param_node)) \<noteq> current_id
                    then (ps @ flush_param pd, Some (start_byte (snd param_node)),
                          empty_param \<lparr> pd_name := Some (ntext (snd n)) \<rparr>)
                    else st)
              else
                (let (ps', pd') =
                       (if current_id \<noteq> Some (start_byte (snd param_node))
                        then (ps @ flush_param pd,
                              empty_param \<lparr> pd_required :=
                                 (ntype (snd param_node) \<noteq> ''default_parameter'') \<rparr>)
                        else (ps, pd));
                     pd'' =
                       (if nm = ''param_name'' then pd' \<lparr> pd_name := Some (ntext (snd n)) \<rparr>
                        else if nm = ''param_type'' then pd' \<lparr> pd_type := Some (ntext (snd n)) \<rparr>
                        else if nm = ''default_value''
                        then pd' \<lparr> pd_required := False, pd_default := Some (ntext (snd n)) \<rparr>
                        else pd')
                 in (ps', Some (start_byte (snd param_node)), pd'')))))"

definition parse_python_parameters ::
    "executor \<Rightarrow> analyzer \<Rightarrow> cur option \<Rightarrow> APIParameter list" where
  "parse_python_parameters Q self params_node =
     (case params_node of
        None \<Rightarrow> []
      | Some ps_node \<Rightarrow>
          (case foldl (param_step (root_node self)) ([], None, empty_param)
                  (Q ps_node PyParamQuery (language_name self)) of
             (ps, current_id, pd) \<Rightarrow> ps @ flush_param pd))"

text \<open>
  \<open>PythonAnalyzer.analyze\<close>. \<open>endpoints_map\<close> is a dictionary from handler name to
  Endpoint, in insertion order; the inner loop runs the query again over the whole file
  and writes the method and path captures that lie under the current decorator into the
  Endpoint of the handler.
\<close>

definition apply_capture :: "node \<Rightarrow> nat list \<Rightarrow> APIEndpoint \<Rightarrow> capture \<Rightarrow> APIEndpoint" where
  "apply_capture t decorator_id endpoint cap =
     (case cap of (n, nm) \<Rightarrow>
        (case climb t (\<lambda>c. fst c = decorator_id) n of
           None \<Rightarrow> endpoint
         | Some current_decorator \<Rightarrow>
             (if nm = ''method'' then endpoint \<lparr> http_method := upper (ntext (snd n)) \<rparr>
              else if nm = ''path''
              then endpoint \<lparr> path := strip (squote @ dquote) (ntext (snd n)) \<rparr>
              else endpoint)))"

text \<open>The function a decorator belongs to, as the loop finds it: the decorator's parent if it
  is a \<open>function_definition\<close>, else the grandparent if that is one. A decorator without a
  parent raises on \<open>endpoint_node.type\<close>.\<close>

definition decorated_function :: "node \<Rightarrow> cur \<Rightarrow> error + cur option" where
  "decorated_function t decorator_node =
     (case parent t decorator_node of
        None \<Rightarrow> Inl AttributeError
      | Some endpoint_node \<Rightarrow>
          (if ntype (snd endpoint_node) \<noteq> ''function_definition''
           then (case parent t endpoint_node of
                   None \<Rightarrow> Inr None
                 | Some g \<Rightarrow>
                     (if ntype (snd g) = ''function_definition'' then Inr (Some g) else Inr None))
           else Inr (Some endpoint_node)))"

type_synonym py_state = "(string \<times> APIEndpoint) list \<times> nat list list"

definition py_step :: "executor \<Rightarrow> analyzer \<Rightarrow> py_state \<Rightarrow> capture \<Rightarrow> error + py_state" where
  "py_step Q self st cap =
     (case (st, cap) of ((endpoints_map, processed_nodes), (n, capture_name)) \<Rightarrow>
        (case climb (root_node self) (\<lambda>c. ntype (snd c) = ''decorator'') n of
           None \<Rightarrow> Inr st
         | Some decorator_node \<Rightarrow>
             (if fst decorator_node \<in> set processed_nodes then Inr st
              else (case decorated_function (root_node self) decorator_node of
                      Inl e \<Rightarrow> Inl e
                    | Inr None \<Rightarrow> Inr st
                    | Inr (Some endpoint_node) \<Rightarrow>
                        (let processed' = fst decorator_node # processed_nodes
                         in (case child_by_field_name endpoint_node ''name'' of
                               None \<Rightarrow> Inr (endpoints_map, processed')
                             | Some handler_name_node \<Rightarrow>
                                 (let hn = ntext (snd handler_name_node);
                                      endpoint =
                                        (case map_of endpoints_map hn of
                                           Some e \<Rightarrow> e
                                         | None \<Rightarrow>
                                             \<lparr> file_path = [], handler_name = hn,
                                               http_method = [], path = [],
                                               line_number = start_row (snd endpoint_node) + 1,
                                               snippet = ntext (snd endpoint_node),
                                               parameters = parse_python_parameters Q self
                                                 (child_by_field_name endpoint_node ''parameters''),
                                               auth_mechanisms = [] \<rparr>);
                                      endpoint' =
                                        foldl (apply_capture (root_node self) (fst decorator_node))
                                          endpoint
                                          (Q ([], root_node self) PyRouteQuery (language_name self))
                                  in Inr (AList.update hn endpoint' endpoints_map,
                                          processed'))))))))"

fun py_loop :: "executor \<Rightarrow> analyzer \<Rightarrow> capture list \<Rightarrow> py_state \<Rightarrow> error + py_state" where
  "py_loop Q self [] st = Inr st"
| "py_loop Q self (cap # rest) st =
     (case py_step Q self st cap of Inl e \<Rightarrow> Inl e | Inr st' \<Rightarrow> py_loop Q self rest st')"

definition python_analyze :: "executor \<Rightarrow> analyzer \<Rightarrow> error + APIEndpoint list" where
  "python_analyze Q self =
     (case py_loop Q self (Q ([], root_node self) PyRouteQuery (language_name self)) ([], []) of
        Inl e \<Rightarrow> Inl e
      | Inr (endpoints_map, processed_nodes) \<Rightarrow> Inr (map snd endpoints_map))"


section \<open>The analyzer factory (parsers/__init__.py)\<close>







section \<open>A reference executor for the queries\<close>

text \<open>
  For the concrete examples the queries are given their tree-sitter reading: a pattern is
  tried at every node of the subtree, in document order, and a match contributes its
  captures in the order of the pattern. \<open>name: (identifier)\<close> asks for a child held under
  the field \<open>name\<close> whose type is \<open>identifier\<close>; \<open>#match?\<close> is an unanchored regular
  expression search, here for one of several literal alternatives; \<open>#eq?\<close> is equality.

  The two parameter queries (of the Python and of the Java analyzer) are left open: they
  overlap on the same nodes, and the order of their captures is the library's business.
  They are functions \<open>pp\<close> and \<open>jp\<close> here, consulted only where the subtree has a node their
  patterns can match at all.
\<close>

fun descend :: "nat list \<Rightarrow> node \<Rightarrow> cur list"
  and descend_list :: "nat list \<Rightarrow> nat \<Rightarrow> node list \<Rightarrow> cur list" where
  "descend p (Node ty fld nmd sb sr tx cs) = (p, Node ty fld nmd sb sr tx cs) # descend_list p 0 cs"
| "descend_list p i [] = []"
| "descend_list p i (c # cs) = descend (p @ [i]) c @ descend_list p (Suc i) cs"

definition subtree :: "cur \<Rightarrow> cur list" where
  "subtree c = descend (fst c) (snd c)"

definition field_child :: "cur \<Rightarrow> string \<Rightarrow> string \<Rightarrow> cur option" where
  "field_child c f ty = find (\<lambda>k. nfield (snd k) = Some f \<and> ntype (snd k) = ty) (kids c)"

definition matches_any :: "string \<Rightarrow> string list \<Rightarrow> bool" where
  "matches_any s alts = list_ex (contains s) alts"

text \<open>The annotation patterns of the Java analyzer differ in their labels, in whether the
  annotation node itself is captured, and in whether the argument list is asked for.\<close>

definition annotation_match ::
    "string \<Rightarrow> string option \<Rightarrow> bool \<Rightarrow> string option \<Rightarrow> cur \<Rightarrow> capture list" where
  "annotation_match name_label args_label args_required node_label c =
     (let node_caps = (case node_label of None \<Rightarrow> [] | Some l \<Rightarrow> [(c, l)])
      in if ntype (snd c) = ''annotation''
         then (case field_child c ''name'' ''identifier'' of
                 None \<Rightarrow> []
               | Some n \<Rightarrow>
                   (case field_child c ''arguments'' ''annotation_argument_list'' of
                      None \<Rightarrow> (if args_required then [] else node_caps @ [(n, name_label)])
                    | Some a \<Rightarrow>
                        node_caps @ [(n, name_label)]
                          @ (case args_label of None \<Rightarrow> [] | Some l \<Rightarrow> [(a, l)])))
         else if ntype (snd c) = ''marker_annotation''
         then (case field_child c ''name'' ''identifier'' of
                 None \<Rightarrow> []
               | Some n \<Rightarrow> node_caps @ [(n, name_label)])
         else [])"

definition route_call_match :: "cur \<Rightarrow> capture list" where
  "route_call_match c =
     (if ntype (snd c) = ''call_expression''
      then (case (field_child c ''function'' ''member_expression'',
                  field_child c ''arguments'' ''arguments'') of
              (Some f, Some a) \<Rightarrow>
                (case (field_child f ''object'' ''identifier'',
                       field_child f ''property'' ''property_identifier'') of
                   (Some obj, Some prop) \<Rightarrow>
                     (if matches_any (ntext (snd obj)) [''app'', ''router'']
                         \<and> matches_any (ntext (snd prop))
                              [''get'', ''post'', ''put'', ''delete'', ''patch'', ''use'']
                      then [(c, ''endpoint_node''), (obj, ''_obj''), (prop, ''method''), (a, ''args'')]
                      else [])
                 | _ \<Rightarrow> [])
            | _ \<Rightarrow> [])
      else [])"

definition req_body_match :: "cur \<Rightarrow> capture list" where
  "req_body_match c =
     (if ntype (snd c) = ''member_expression''
      then (case (field_child c ''object'' ''identifier'',
                  field_child c ''property'' ''property_identifier'') of
              (Some obj, Some prop) \<Rightarrow>
                (if ntext (snd obj) = ''req'' \<and> ntext (snd prop) = ''body''
                 then [(obj, ''req''), (prop, ''param_type'')] else [])
            | _ \<Rightarrow> [])
      else [])"

definition decorator_match :: "cur \<Rightarrow> capture list" where
  "decorator_match c =
     (if ntype (snd c) = ''decorator''
      then concat (map (\<lambda>call.
             (if ntype (snd call) = ''call''
              then (case (field_child call ''function'' ''attribute'',
                          field_child call ''arguments'' ''argument_list'') of
                      (Some f, Some al) \<Rightarrow>
                        (case (field_child f ''object'' ''identifier'',
                               field_child f ''attribute'' ''identifier'') of
                           (Some obj, Some attr) \<Rightarrow>
                             (if matches_any (ntext (snd attr))
                                   [''get'', ''post'', ''put'', ''delete'', ''patch'', ''route'']
                              then concat (map (\<lambda>s.
                                     [(c, ''decorator_node''), (obj, ''app''),
                                      (attr, ''method''), (s, ''path'')])
                                     (filter (\<lambda>k. ntype (snd k) = ''string'') (kids al)))
                              else [])
                         | _ \<Rightarrow> [])
                    | _ \<Rightarrow> [])
              else [])) (kids c))
      else [])"

definition match_at :: "query \<Rightarrow> cur \<Rightarrow> capture list" where
  "match_at q c =
     (case q of
        PyRouteQuery \<Rightarrow> decorator_match c
      | PyParamQuery \<Rightarrow> []
      | JavaClassQuery \<Rightarrow>
          (if ntype (snd c) = ''class_declaration'' then [(c, ''class_node'')] else [])
      | JavaBasePathQuery \<Rightarrow>
          annotation_match ''anno_name'' (Some ''args'') True (Some ''annotation_node'') c
      | JavaMethodQuery \<Rightarrow>
          (if ntype (snd c) = ''method_declaration'' then [(c, ''method_node'')] else [])
      | JavaAnnotationQuery \<Rightarrow>
          annotation_match ''method_annotation'' (Some ''annotation_args'') False
            (Some ''annotation_node'') c
      | JavaParamQuery \<Rightarrow> []
      | JavaSwaggerQuery \<Rightarrow> annotation_match ''anno_name'' None False None c
      | JavaAuthQuery \<Rightarrow> annotation_match ''auth_name'' None False None c
      | NodeRouteQuery \<Rightarrow> route_call_match c
      | NodeBodyQuery \<Rightarrow> req_body_match c)"

definition has_node_of_type :: "string \<Rightarrow> cur \<Rightarrow> bool" where
  "has_node_of_type ty c = list_ex (\<lambda>d. ntype (snd d) = ty) (subtree c)"

definition ts_captures :: "(cur \<Rightarrow> capture list) \<Rightarrow> (cur \<Rightarrow> capture list) \<Rightarrow> executor" where
  "ts_captures pp jp c q lang =
     (if q = PyParamQuery then (if has_node_of_type ''identifier'' c then pp c else [])
      else if q = JavaParamQuery then (if has_node_of_type ''formal_parameter'' c then jp c else [])
      else concat (map (match_at q) (subtree c)))"


section \<open>Example sources and their syntax trees\<close>

text \<open>
  The trees below are the ones the tree-sitter grammars give for the sources quoted with
  them: node types, field names, named and anonymous nodes, start bytes and rows.
\<close>

definition newline :: string where "newline = [CHR 0x0A]"




text \<open>
  A method with two bare Parameter markers.
  \<^verbatim>\<open>
  class C {
    @GetMapping("/x")
    @Parameter
    @Parameter
    void f() {}
  }
  \<close>
\<close>

definition java_two_markers :: node where
  \<open>java_two_markers =
     Node ''program'' None True 0 0 (''class C {'' @ newline @ ''  @GetMapping("/x")'' @ newline @ ''  @Parameter'' @ newline @ ''  @Parameter'' @ newline @ ''  void f() {}'' @ newline @ ''}'')
       [Node ''class_declaration'' None True 0 0 (''class C {'' @ newline @ ''  @GetMapping("/x")'' @ newline @ ''  @Parameter'' @ newline @ ''  @Parameter'' @ newline @ ''  void f() {}'' @ newline @ ''}'')
          [Node ''class'' None False 0 0 ''class'' [],
           Node ''identifier'' (Some ''name'') True 6 0 ''C'' [],
           Node ''class_body'' (Some ''body'') True 8 0 (''{'' @ newline @ ''  @GetMapping("/x")'' @ newline @ ''  @Parameter'' @ newline @ ''  @Parameter'' @ newline @ ''  void f() {}'' @ newline @ ''}'')
             [Node ''{'' None False 8 0 ''{'' [],
              Node ''method_declaration'' None True 12 1 (''@GetMapping("/x")'' @ newline @ ''  @Parameter'' @ newline @ ''  @Parameter'' @ newline @ ''  void f() {}'')
                [Node ''modifiers'' None True 12 1 (''@GetMapping("/x")'' @ newline @ ''  @Parameter'' @ newline @ ''  @Parameter'')
                   [Node ''annotation'' None True 12 1 ''@GetMapping("/x")''
                      [Node ''@'' None False 12 1 ''@'' [],
                       Node ''identifier'' (Some ''name'') True 13 1 ''GetMapping'' [],
                       Node ''annotation_argument_list'' (Some ''arguments'') True 23 1 ''("/x")''
                         [Node ''('' None False 23 1 ''('' [],
                          Node ''string_literal'' None True 24 1 ''"/x"'' [],
                          Node '')'' None False 28 1 '')'' []]],
                    Node ''marker_annotation'' None True 32 2 ''@Parameter''
                      [Node ''@'' None False 32 2 ''@'' [],
                       Node ''identifier'' (Some ''name'') True 33 2 ''Parameter'' []],
                    Node ''marker_annotation'' None True 45 3 ''@Parameter''
                      [Node ''@'' None False 45 3 ''@'' [],
                       Node ''identifier'' (Some ''name'') True 46 3 ''Parameter'' []]],
                 Node ''void_type'' (Some ''type'') True 58 4 ''void'' [],
                 Node ''identifier'' (Some ''name'') True 63 4 ''f'' [],
                 Node ''formal_parameters'' (Some ''parameters'') True 64 4 ''()''
                   [Node ''('' None False 64 4 ''('' [],
                    Node '')'' None False 65 4 '')'' []],
                 Node ''block'' (Some ''body'') True 67 4 ''{}''
                   [Node ''{'' None False 67 4 ''{'' [],
                    Node ''}'' None False 68 4 ''}'' []]],
              Node ''}'' None False 70 5 ''}'' []]]]\<close>

text \<open>
  A method with one bare Parameter marker.
  \<^verbatim>\<open>
  class C {
    @GetMapping("/x")
    @Parameter
    void f() {}
  }
  \<close>
\<close>

definition java_one_marker :: node where
  \<open>java_one_marker =
     Node ''program'' None True 0 0 (''class C {'' @ newline @ ''  @GetMapping("/x")'' @ newline @ ''  @Parameter'' @ newline @ ''  void f() {}'' @ newline @ ''}'')
       [Node ''class_declaration'' None True 0 0 (''class C {'' @ newline @ ''  @GetMapping("/x")'' @ newline @ ''  @Parameter'' @ newline @ ''  void f() {}'' @ newline @ ''}'')
          [Node ''class'' None False 0 0 ''class'' [],
           Node ''identifier'' (Some ''name'') True 6 0 ''C'' [],
           Node ''class_body'' (Some ''body'') True 8 0 (''{'' @ newline @ ''  @GetMapping("/x")'' @ newline @ ''  @Parameter'' @ newline @ ''  void f() {}'' @ newline @ ''}'')
             [Node ''{'' None False 8 0 ''{'' [],
              Node ''method_declaration'' None True 12 1 (''@GetMapping("/x")'' @ newline @ ''  @Parameter'' @ newline @ ''  void f() {}'')
                [Node ''modifiers'' None True 12 1 (''@GetMapping("/x")'' @ newline @ ''  @Parameter'')
                   [Node ''annotation'' None True 12 1 ''@GetMapping("/x")''
                      [Node ''@'' None False 12 1 ''@'' [],
                       Node ''identifier'' (Some ''name'') True 13 1 ''GetMapping'' [],
                       Node ''annotation_argument_list'' (Some ''arguments'') True 23 1 ''("/x")''
                         [Node ''('' None False 23 1 ''('' [],
                          Node ''string_literal'' None True 24 1 ''"/x"'' [],
                          Node '')'' None False 28 1 '')'' []]],
                    Node ''marker_annotation'' None True 32 2 ''@Parameter''
                      [Node ''@'' None False 32 2 ''@'' [],
                       Node ''identifier'' (Some ''name'') True 33 2 ''Parameter'' []]],
                 Node ''void_type'' (Some ''type'') True 45 3 ''void'' [],
                 Node ''identifier'' (Some ''name'') True 50 3 ''f'' [],
                 Node ''formal_parameters'' (Some ''parameters'') True 51 3 ''()''
                   [Node ''('' None False 51 3 ''('' [],
                    Node '')'' None False 52 3 '')'' []],
                 Node ''block'' (Some ''body'') True 54 3 ''{}''
                   [Node ''{'' None False 54 3 ''{'' [],
                    Node ''}'' None False 55 3 ''}'' []]],
              Node ''}'' None False 57 4 ''}'' []]]]\<close>

text \<open>
  A base path and a method path that both end in a slash.
  \<^verbatim>\<open>
  @RequestMapping("/api/")
  class C {
    @GetMapping("/users/")
    void f() {}
  }
  \<close>
\<close>

definition java_trailing_slashes :: node where
  \<open>java_trailing_slashes =
     Node ''program'' None True 0 0 (''@RequestMapping("/api/")'' @ newline @ ''class C {'' @ newline @ ''  @GetMapping("/users/")'' @ newline @ ''  void f() {}'' @ newline @ ''}'')
       [Node ''class_declaration'' None True 0 0 (''@RequestMapping("/api/")'' @ newline @ ''class C {'' @ newline @ ''  @GetMapping("/users/")'' @ newline @ ''  void f() {}'' @ newline @ ''}'')
          [Node ''modifiers'' None True 0 0 ''@RequestMapping("/api/")''
             [Node ''annotation'' None True 0 0 ''@RequestMapping("/api/")''
                [Node ''@'' None False 0 0 ''@'' [],
                 Node ''identifier'' (Some ''name'') True 1 0 ''RequestMapping'' [],
                 Node ''annotation_argument_list'' (Some ''arguments'') True 15 0 ''("/api/")''
                   [Node ''('' None False 15 0 ''('' [],
                    Node ''string_literal'' None True 16 0 ''"/api/"'' [],
                    Node '')'' None False 23 0 '')'' []]]],
           Node ''class'' None False 25 1 ''class'' [],
           Node ''identifier'' (Some ''name'') True 31 1 ''C'' [],
           Node ''class_body'' (Some ''body'') True 33 1 (''{'' @ newline @ ''  @GetMapping("/users/")'' @ newline @ ''  void f() {}'' @ newline @ ''}'')
             [Node ''{'' None False 33 1 ''{'' [],
              Node ''method_declaration'' None True 37 2 (''@GetMapping("/users/")'' @ newline @ ''  void f() {}'')
                [Node ''modifiers'' None True 37 2 ''@GetMapping("/users/")''
                   [Node ''annotation'' None True 37 2 ''@GetMapping("/users/")''
                      [Node ''@'' None False 37 2 ''@'' [],
                       Node ''identifier'' (Some ''name'') True 38 2 ''GetMapping'' [],
                       Node ''annotation_argument_list'' (Some ''arguments'') True 48 2 ''("/users/")''
                         [Node ''('' None False 48 2 ''('' [],
                          Node ''string_literal'' None True 49 2 ''"/users/"'' [],
                          Node '')'' None False 58 2 '')'' []]]],
                 Node ''void_type'' (Some ''type'') True 62 3 ''void'' [],
                 Node ''identifier'' (Some ''name'') True 67 3 ''f'' [],
                 Node ''formal_parameters'' (Some ''parameters'') True 68 3 ''()''
                   [Node ''('' None False 68 3 ''('' [],
                    Node '')'' None False 69 3 '')'' []],
                 Node ''block'' (Some ''body'') True 71 3 ''{}''
                   [Node ''{'' None False 71 3 ''{'' [],
                    Node ''}'' None False 72 3 ''}'' []]],
              Node ''}'' None False 74 4 ''}'' []]]]\<close>

text \<open>
  A route with a path parameter and an inline handler.
  \<^verbatim>\<open>
  router.get('/users/:id', (req,res)=>{ req.query.sort; req.body; })
  \<close>
\<close>

definition js_users :: node where
  \<open>js_users =
     Node ''program'' None True 0 0 (''router.get('' @ squote @ ''/users/:id'' @ squote @ '', (req,res)=>{ req.query.sort; req.body; })'')
       [Node ''expression_statement'' None True 0 0 (''router.get('' @ squote @ ''/users/:id'' @ squote @ '', (req,res)=>{ req.query.sort; req.body; })'')
          [Node ''call_expression'' None True 0 0 (''router.get('' @ squote @ ''/users/:id'' @ squote @ '', (req,res)=>{ req.query.sort; req.body; })'')
             [Node ''member_expression'' (Some ''function'') True 0 0 ''router.get''
                [Node ''identifier'' (Some ''object'') True 0 0 ''router'' [],
                 Node ''.'' None False 6 0 ''.'' [],
                 Node ''property_identifier'' (Some ''property'') True 7 0 ''get'' []],
              Node ''arguments'' (Some ''arguments'') True 10 0 (''('' @ squote @ ''/users/:id'' @ squote @ '', (req,res)=>{ req.query.sort; req.body; })'')
                [Node ''('' None False 10 0 ''('' [],
                 Node ''string'' None True 11 0 (squote @ ''/users/:id'' @ squote)
                   [Node squote None False 11 0 (squote) [],
                    Node ''string_fragment'' None True 12 0 ''/users/:id'' [],
                    Node squote None False 22 0 (squote) []],
                 Node '','' None False 23 0 '','' [],
                 Node ''arrow_function'' None True 25 0 ''(req,res)=>{ req.query.sort; req.body; }''
                   [Node ''formal_parameters'' (Some ''parameters'') True 25 0 ''(req,res)''
                      [Node ''('' None False 25 0 ''('' [],
                       Node ''identifier'' None True 26 0 ''req'' [],
                       Node '','' None False 29 0 '','' [],
                       Node ''identifier'' None True 30 0 ''res'' [],
                       Node '')'' None False 33 0 '')'' []],
                    Node ''=>'' None False 34 0 ''=>'' [],
                    Node ''statement_block'' (Some ''body'') True 36 0 ''{ req.query.sort; req.body; }''
                      [Node ''{'' None False 36 0 ''{'' [],
                       Node ''expression_statement'' None True 38 0 ''req.query.sort;''
                         [Node ''member_expression'' None True 38 0 ''req.query.sort''
                            [Node ''member_expression'' (Some ''object'') True 38 0 ''req.query''
                               [Node ''identifier'' (Some ''object'') True 38 0 ''req'' [],
                                Node ''.'' None False 41 0 ''.'' [],
                                Node ''property_identifier'' (Some ''property'') True 42 0 ''query'' []],
                             Node ''.'' None False 47 0 ''.'' [],
                             Node ''property_identifier'' (Some ''property'') True 48 0 ''sort'' []],
                          Node '';'' None False 52 0 '';'' []],
                       Node ''expression_statement'' None True 54 0 ''req.body;''
                         [Node ''member_expression'' None True 54 0 ''req.body''
                            [Node ''identifier'' (Some ''object'') True 54 0 ''req'' [],
                             Node ''.'' None False 57 0 ''.'' [],
                             Node ''property_identifier'' (Some ''property'') True 58 0 ''body'' []],
                          Node '';'' None False 62 0 '';'' []],
                       Node ''}'' None False 64 0 ''}'' []]],
                 Node '')'' None False 65 0 '')'' []]]]]\<close>

text \<open>
  A route call without a string literal.
  \<^verbatim>\<open>
  app.get(handler)
  \<close>
\<close>

definition js_no_literal :: node where
  \<open>js_no_literal =
     Node ''program'' None True 0 0 ''app.get(handler)''
       [Node ''expression_statement'' None True 0 0 ''app.get(handler)''
          [Node ''call_expression'' None True 0 0 ''app.get(handler)''
             [Node ''member_expression'' (Some ''function'') True 0 0 ''app.get''
                [Node ''identifier'' (Some ''object'') True 0 0 ''app'' [],
                 Node ''.'' None False 3 0 ''.'' [],
                 Node ''property_identifier'' (Some ''property'') True 4 0 ''get'' []],
              Node ''arguments'' (Some ''arguments'') True 7 0 ''(handler)''
                [Node ''('' None False 7 0 ''('' [],
                 Node ''identifier'' None True 8 0 ''handler'' [],
                 Node '')'' None False 15 0 '')'' []]]]]\<close>

text \<open>
  A route call with two string literals.
  \<^verbatim>\<open>
  app.get('/a', '/b', handler)
  \<close>
\<close>

definition js_two_literals :: node where
  \<open>js_two_literals =
     Node ''program'' None True 0 0 (''app.get('' @ squote @ ''/a'' @ squote @ '', '' @ squote @ ''/b'' @ squote @ '', handler)'')
       [Node ''expression_statement'' None True 0 0 (''app.get('' @ squote @ ''/a'' @ squote @ '', '' @ squote @ ''/b'' @ squote @ '', handler)'')
          [Node ''call_expression'' None True 0 0 (''app.get('' @ squote @ ''/a'' @ squote @ '', '' @ squote @ ''/b'' @ squote @ '', handler)'')
             [Node ''member_expression'' (Some ''function'') True 0 0 ''app.get''
                [Node ''identifier'' (Some ''object'') True 0 0 ''app'' [],
                 Node ''.'' None False 3 0 ''.'' [],
                 Node ''property_identifier'' (Some ''property'') True 4 0 ''get'' []],
              Node ''arguments'' (Some ''arguments'') True 7 0 (''('' @ squote @ ''/a'' @ squote @ '', '' @ squote @ ''/b'' @ squote @ '', handler)'')
                [Node ''('' None False 7 0 ''('' [],
                 Node ''string'' None True 8 0 (squote @ ''/a'' @ squote)
                   [Node squote None False 8 0 (squote) [],
                    Node ''string_fragment'' None True 9 0 ''/a'' [],
                    Node squote None False 11 0 (squote) []],
                 Node '','' None False 12 0 '','' [],
                 Node ''string'' None True 14 0 (squote @ ''/b'' @ squote)
                   [Node squote None False 14 0 (squote) [],
                    Node ''string_fragment'' None True 15 0 ''/b'' [],
                    Node squote None False 17 0 (squote) []],
                 Node '','' None False 18 0 '','' [],
                 Node ''identifier'' None True 20 0 ''handler'' [],
                 Node '')'' None False 27 0 '')'' []]]]]\<close>

text \<open>
  A route call whose first string literal is empty.
  \<^verbatim>\<open>
  app.get('', handler)
  \<close>
\<close>

definition js_empty_literal :: node where
  \<open>js_empty_literal =
     Node ''program'' None True 0 0 (''app.get('' @ squote @ squote @ '', handler)'')
       [Node ''expression_statement'' None True 0 0 (''app.get('' @ squote @ squote @ '', handler)'')
          [Node ''call_expression'' None True 0 0 (''app.get('' @ squote @ squote @ '', handler)'')
             [Node ''member_expression'' (Some ''function'') True 0 0 ''app.get''
                [Node ''identifier'' (Some ''object'') True 0 0 ''app'' [],
                 Node ''.'' None False 3 0 ''.'' [],
                 Node ''property_identifier'' (Some ''property'') True 4 0 ''get'' []],
              Node ''arguments'' (Some ''arguments'') True 7 0 (''('' @ squote @ squote @ '', handler)'')
                [Node ''('' None False 7 0 ''('' [],
                 Node ''string'' None True 8 0 (squote @ squote)
                   [Node squote None False 8 0 (squote) [],
                    Node squote None False 9 0 (squote) []],
                 Node '','' None False 10 0 '','' [],
                 Node ''identifier'' None True 12 0 ''handler'' [],
                 Node '')'' None False 19 0 '')'' []]]]]\<close>

text \<open>
  A route call with a path and no handler argument.
  \<^verbatim>\<open>
  app.get('/users/:id')
  \<close>
\<close>

definition js_no_handler :: node where
  \<open>js_no_handler =
     Node ''program'' None True 0 0 (''app.get('' @ squote @ ''/users/:id'' @ squote @ '')'')
       [Node ''expression_statement'' None True 0 0 (''app.get('' @ squote @ ''/users/:id'' @ squote @ '')'')
          [Node ''call_expression'' None True 0 0 (''app.get('' @ squote @ ''/users/:id'' @ squote @ '')'')
             [Node ''member_expression'' (Some ''function'') True 0 0 ''app.get''
                [Node ''identifier'' (Some ''object'') True 0 0 ''app'' [],
                 Node ''.'' None False 3 0 ''.'' [],
                 Node ''property_identifier'' (Some ''property'') True 4 0 ''get'' []],
              Node ''arguments'' (Some ''arguments'') True 7 0 (''('' @ squote @ ''/users/:id'' @ squote @ '')'')
                [Node ''('' None False 7 0 ''('' [],
                 Node ''string'' None True 8 0 (squote @ ''/users/:id'' @ squote)
                   [Node squote None False 8 0 (squote) [],
                    Node ''string_fragment'' None True 9 0 ''/users/:id'' [],
                    Node squote None False 19 0 (squote) []],
                 Node '')'' None False 20 0 '')'' []]]]]\<close>

text \<open>
  A route call with an empty string literal and no handler argument.
  \<^verbatim>\<open>
  app.use('')
  \<close>
\<close>

definition js_empty_no_handler :: node where
  \<open>js_empty_no_handler =
     Node ''program'' None True 0 0 (''app.use('' @ squote @ squote @ '')'')
       [Node ''expression_statement'' None True 0 0 (''app.use('' @ squote @ squote @ '')'')
          [Node ''call_expression'' None True 0 0 (''app.use('' @ squote @ squote @ '')'')
             [Node ''member_expression'' (Some ''function'') True 0 0 ''app.use''
                [Node ''identifier'' (Some ''object'') True 0 0 ''app'' [],
                 Node ''.'' None False 3 0 ''.'' [],
                 Node ''property_identifier'' (Some ''property'') True 4 0 ''use'' []],
              Node ''arguments'' (Some ''arguments'') True 7 0 (''('' @ squote @ squote @ '')'')
                [Node ''('' None False 7 0 ''('' [],
                 Node ''string'' None True 8 0 (squote @ squote)
                   [Node squote None False 8 0 (squote) [],
                    Node squote None False 9 0 (squote) []],
                 Node '')'' None False 10 0 '')'' []]]]]\<close>

text \<open>
  A function with two route decorators.
  \<^verbatim>\<open>
  @app.get("/items/{id}")
  @app.post("/items/{id}")
  def f(id):
      pass
  \<close>
\<close>

definition py_two_decorators :: node where
  \<open>py_two_decorators =
     Node ''module'' None True 0 0 (''@app.get("/items/{id}")'' @ newline @ ''@app.post("/items/{id}")'' @ newline @ ''def f(id):'' @ newline @ ''    pass'')
       [Node ''decorated_definition'' None True 0 0 (''@app.get("/items/{id}")'' @ newline @ ''@app.post("/items/{id}")'' @ newline @ ''def f(id):'' @ newline @ ''    pass'')
          [Node ''decorator'' None True 0 0 ''@app.get("/items/{id}")''
             [Node ''@'' None False 0 0 ''@'' [],
              Node ''call'' None True 1 0 ''app.get("/items/{id}")''
                [Node ''attribute'' (Some ''function'') True 1 0 ''app.get''
                   [Node ''identifier'' (Some ''object'') True 1 0 ''app'' [],
                    Node ''.'' None False 4 0 ''.'' [],
                    Node ''identifier'' (Some ''attribute'') True 5 0 ''get'' []],
                 Node ''argument_list'' (Some ''arguments'') True 8 0 ''("/items/{id}")''
                   [Node ''('' None False 8 0 ''('' [],
                    Node ''string'' None True 9 0 ''"/items/{id}"''
                      [Node ''string_start'' None True 9 0 ''"'' [],
                       Node ''string_content'' None True 10 0 ''/items/{id}'' [],
                       Node ''string_end'' None True 21 0 ''"'' []],
                    Node '')'' None False 22 0 '')'' []]]],
           Node ''decorator'' None True 24 1 ''@app.post("/items/{id}")''
             [Node ''@'' None False 24 1 ''@'' [],
              Node ''call'' None True 25 1 ''app.post("/items/{id}")''
                [Node ''attribute'' (Some ''function'') True 25 1 ''app.post''
                   [Node ''identifier'' (Some ''object'') True 25 1 ''app'' [],
                    Node ''.'' None False 28 1 ''.'' [],
                    Node ''identifier'' (Some ''attribute'') True 29 1 ''post'' []],
                 Node ''argument_list'' (Some ''arguments'') True 33 1 ''("/items/{id}")''
                   [Node ''('' None False 33 1 ''('' [],
                    Node ''string'' None True 34 1 ''"/items/{id}"''
                      [Node ''string_start'' None True 34 1 ''"'' [],
                       Node ''string_content'' None True 35 1 ''/items/{id}'' [],
                       Node ''string_end'' None True 46 1 ''"'' []],
                    Node '')'' None False 47 1 '')'' []]]],
           Node ''function_definition'' (Some ''definition'') True 49 2 (''def f(id):'' @ newline @ ''    pass'')
             [Node ''def'' None False 49 2 ''def'' [],
              Node ''identifier'' (Some ''name'') True 53 2 ''f'' [],
              Node ''parameters'' (Some ''parameters'') True 54 2 ''(id)''
                [Node ''('' None False 54 2 ''('' [],
                 Node ''identifier'' None True 55 2 ''id'' [],
                 Node '')'' None False 57 2 '')'' []],
              Node '':'' None False 58 2 '':'' [],
              Node ''block'' (Some ''body'') True 64 3 ''pass''
                [Node ''pass_statement'' None True 64 3 ''pass''
                   [Node ''pass'' None False 64 3 ''pass'' []]]]]]\<close>

text \<open>
  The same source in the shape the decorator loop looks for, with the decorators as children of the function definition; the Python grammar does not produce this tree.
  \<^verbatim>\<open>
  @app.get("/items/{id}")
  @app.post("/items/{id}")
  def f(id):
      pass
  \<close>
\<close>

definition py_two_decorators_flat :: node where
  \<open>py_two_decorators_flat =
     Node ''module'' None True 0 0 (''@app.get("/items/{id}")'' @ newline @ ''@app.post("/items/{id}")'' @ newline @ ''def f(id):'' @ newline @ ''    pass'')
       [Node ''function_definition'' None True 0 0 (''@app.get("/items/{id}")'' @ newline @ ''@app.post("/items/{id}")'' @ newline @ ''def f(id):'' @ newline @ ''    pass'')
          [Node ''decorator'' None True 0 0 ''@app.get("/items/{id}")''
             [Node ''@'' None False 0 0 ''@'' [],
              Node ''call'' None True 1 0 ''app.get("/items/{id}")''
                [Node ''attribute'' (Some ''function'') True 1 0 ''app.get''
                   [Node ''identifier'' (Some ''object'') True 1 0 ''app'' [],
                    Node ''.'' None False 4 0 ''.'' [],
                    Node ''identifier'' (Some ''attribute'') True 5 0 ''get'' []],
                 Node ''argument_list'' (Some ''arguments'') True 8 0 ''("/items/{id}")''
                   [Node ''('' None False 8 0 ''('' [],
                    Node ''string'' None True 9 0 ''"/items/{id}"''
                      [Node ''string_start'' None True 9 0 ''"'' [],
                       Node ''string_content'' None True 10 0 ''/items/{id}'' [],
                       Node ''string_end'' None True 21 0 ''"'' []],
                    Node '')'' None False 22 0 '')'' []]]],
           Node ''decorator'' None True 24 1 ''@app.post("/items/{id}")''
             [Node ''@'' None False 24 1 ''@'' [],
              Node ''call'' None True 25 1 ''app.post("/items/{id}")''
                [Node ''attribute'' (Some ''function'') True 25 1 ''app.post''
                   [Node ''identifier'' (Some ''object'') True 25 1 ''app'' [],
                    Node ''.'' None False 28 1 ''.'' [],
                    Node ''identifier'' (Some ''attribute'') True 29 1 ''post'' []],
                 Node ''argument_list'' (Some ''arguments'') True 33 1 ''("/items/{id}")''
                   [Node ''('' None False 33 1 ''('' [],
                    Node ''string'' None True 34 1 ''"/items/{id}"''
                      [Node ''string_start'' None True 34 1 ''"'' [],
                       Node ''string_content'' None True 35 1 ''/items/{id}'' [],
                       Node ''string_end'' None True 46 1 ''"'' []],
                    Node '')'' None False 47 1 '')'' []]]],
           Node ''def'' None False 49 2 ''def'' [],
           Node ''identifier'' (Some ''name'') True 53 2 ''f'' [],
           Node ''parameters'' (Some ''parameters'') True 54 2 ''(id)''
             [Node ''('' None False 54 2 ''('' [],
              Node ''identifier'' None True 55 2 ''id'' [],
              Node '')'' None False 57 2 '')'' []],
           Node '':'' None False 58 2 '':'' [],
           Node ''block'' (Some ''body'') True 64 3 ''pass''
             [Node ''pass_statement'' None True 64 3 ''pass''
                [Node ''pass'' None False 64 3 ''pass'' []]]]]\<close>


section \<open>Auxiliary definitions for the statements\<close>

text \<open>An analyzer object whose parse of the source gave the tree \<open>t\<close>.\<close>

definition analyzer_on :: "string \<Rightarrow> node \<Rightarrow> analyzer" where
  "analyzer_on lang t = \<lparr> language_name = lang, root_node = t \<rparr>"

text \<open>The reference executor with the two parameter queries giving no capture; used for
  closed instances on sources where those queries have nothing to match or are never run.\<close>

definition ts_reference :: executor where
  "ts_reference = ts_captures (\<lambda>c. []) (\<lambda>c. [])"

text \<open>The handle of the node at a path of a tree.\<close>

definition at :: "node \<Rightarrow> nat list \<Rightarrow> cur" where
  "at t p = (p, the (node_at t p))"


text \<open>An annotation node, with or without arguments, whose name is \<open>Parameter\<close>.\<close>

definition is_parameter_annotation :: "cur \<Rightarrow> bool" where
  "is_parameter_annotation c =
     (ntype (snd c) \<in> set annotation_kinds \<and>
      (case field_child c ''name'' ''identifier'' of
         None \<Rightarrow> False | Some n \<Rightarrow> ntext (snd n) = ''Parameter''))"


text \<open>The executor gives the route-call query, run on a handler, only the labels of that
  query.\<close>

definition route_labels_only :: "executor \<Rightarrow> analyzer \<Rightarrow> bool" where
  "route_labels_only Q self =
     (\<forall>h. \<forall>cap \<in> set (Q h NodeRouteQuery (language_name self)).
        snd cap \<in> {''endpoint_node'', ''_obj'', ''method'', ''args''})"

text \<open>
  What a route call with argument list \<open>args_node\<close> gives: without a string literal among
  the named arguments, nothing; with one, the first, stripped of the quote characters at its
  ends, is the path. An empty path discards the call; otherwise the call is not discarded,
  any Endpoint returned for it carries that path, and one is returned when the executor
  keeps to the labels of the query.
\<close>

definition first_literal_is_path ::
    "executor \<Rightarrow> analyzer \<Rightarrow> (string \<times> cur) list \<Rightarrow> cur \<Rightarrow> bool" where
  "first_literal_is_path Q self data args_node =
     (case find (\<lambda>child. ntype (snd child) \<in> set [''string_literal'', ''string''])
             (arg_children args_node) of
        None \<Rightarrow> node_endpoint Q self data = Inr None
      | Some s \<Rightarrow>
          (if strip (squote @ dquote @ backtick) (ntext (snd s)) = []
           then node_endpoint Q self data = Inr None
           else node_endpoint Q self data \<noteq> Inr None
                \<and> (\<forall>e. node_endpoint Q self data = Inr (Some e)
                       \<longrightarrow> path e = strip (squote @ dquote @ backtick) (ntext (snd s)))
                \<and> (route_labels_only Q self
                       \<longrightarrow> (\<exists>e. node_endpoint Q self data = Inr (Some e)))))"

text \<open>The first group of captures of the route-call query over the whole file.\<close>

definition first_route_group :: "executor \<Rightarrow> analyzer \<Rightarrow> (string \<times> cur) list" where
  "first_route_group Q self =
     hd (map snd (node_captures (root_node self)
                    (Q ([], root_node self) NodeRouteQuery (language_name self))))"

text \<open>The invariant of \<open>endpoints_map\<close>: its keys are distinct, and every Endpoint stored in
  it carries its key as handler name and a blank file path.\<close>

definition endpoints_map_ok :: "(string \<times> APIEndpoint) list \<Rightarrow> bool" where
  "endpoints_map_ok m =
     (distinct (map fst m) \<and> list_all (\<lambda>(k, e). handler_name e = k \<and> file_path e = []) m)"





section \<open>Theorems\<close>

subsection \<open>Java path normalisation\<close>

text \<open>
  Claim C2. The final path of a Java Endpoint is \<open>basePath + "/" + methodPath\<close> with the
  duplicate slashes collapsed and the trailing slash trimmed, so that base \<open>"/api/"\<close> with
  method path \<open>"/users/"\<close> gives \<open>"/api/users"\<close>. The code makes one replacement pass over
  \<open>"/api///users/"\<close>: the first two of the three slashes become one and the third stays, so
  the Endpoint path is \<open>"/api//users"\<close>, with a double slash left in it, also for the
  class annotated \<open>@RequestMapping("/api/")\<close> with the method annotated
  \<open>@GetMapping("/users/")\<close>. The empty base with the empty method path does give \<open>"/"\<close>.
\<close>

theorem full_path_leaves_double_slash:
  "full_path ''/api/'' ''/users/'' = ''/api//users''
   \<and> full_path [] [] = ''/''
   \<and> map path (java_analyze (ts_captures pp jp) (analyzer_on ''java'' java_trailing_slashes))
       = [''/api//users'']"
proof (intro conjI)
  show "full_path ''/api/'' ''/users/'' = ''/api//users''"
    by (simp add: full_path_def rstrip_def)
  show "full_path [] [] = ''/''"
    by (simp add: full_path_def rstrip_def)
  show "map path (java_analyze (ts_captures pp jp) (analyzer_on ''java'' java_trailing_slashes))
       = [''/api//users'']"
    by code_simp
qed


subsection \<open>The Java analyzer\<close>


lemma find_auth_annotations_distinct: "distinct (find_auth_annotations Q self m)"
  by (cases m) (simp_all add: find_auth_annotations_def list_set_def)







lemma parse_java_parameters_swagger:
  assumes "child_of_type method_node ''modifiers'' = Some mm"
  shows "parse_java_parameters Q self (Some ps) method_node =
           List.map_filter formal_parameter
             (map snd (correlate (root_node self) [''formal_parameter'']
                         (Q ps JavaParamQuery (language_name self))))
           @ replicate (length (swagger_hits Q self mm)) swagger_param"
  using assms by (simp add: parse_java_parameters_def map_replicate_const)

lemma swagger_match_no_name:
  assumes "field_child d ''name'' ''identifier'' = None"
  shows "annotation_match ''anno_name'' None False None d = []"
  using assms unfolding annotation_match_def by simp
lemma no_name_not_parameter:
  assumes "field_child d ''name'' ''identifier'' = None"
  shows "\<not> is_parameter_annotation d"
  using assms unfolding is_parameter_annotation_def by simp
lemma swagger_match_name:
  assumes "field_child d ''name'' ''identifier'' = Some n"
  shows "annotation_match ''anno_name'' None False None d = (if ntype (snd d) \<in> set annotation_kinds then [(n, ''anno_name'')] else [])"
  using assms unfolding annotation_match_def annotation_kinds_def by (simp split: option.splits)
lemma parameter_annotation_name:
  assumes "field_child d ''name'' ''identifier'' = Some n"
  shows "is_parameter_annotation d = (ntype (snd d) \<in> set annotation_kinds \<and> ntext (snd n) = ''Parameter'')"
  using assms unfolding is_parameter_annotation_def by simp
lemma swagger_match_count:
  "length (filter (\<lambda>(n, nm). nm = ''anno_name'' \<and> ntext (snd n) = ''Parameter'')
             (annotation_match ''anno_name'' None False None d))
   = (if is_parameter_annotation d then 1 else 0)"
proof (cases "field_child d ''name'' ''identifier''")
  case None
  show ?thesis unfolding swagger_match_no_name[OF None] using no_name_not_parameter[OF None] by simp
next
  case (Some n)
  show ?thesis unfolding swagger_match_name[OF Some] parameter_annotation_name[OF Some] by simp
qed

lemma swagger_concat_count:
  "length (filter (\<lambda>(n, nm). nm = ''anno_name'' \<and> ntext (snd n) = ''Parameter'')
             (concat (map (annotation_match ''anno_name'' None False None) ds)))
   = length (filter is_parameter_annotation ds)"
  by (induction ds) (simp_all add: swagger_match_count)

lemma swagger_hits_reference:
  "length (swagger_hits (ts_captures pp jp) self mm) = length (filter is_parameter_annotation (subtree mm))"
proof -
  have "match_at JavaSwaggerQuery = annotation_match ''anno_name'' None False None"
    by (rule ext) (simp add: match_at_def)
  then show ?thesis
    by (simp add: swagger_hits_def ts_captures_def swagger_concat_count)
qed






text \<open>
  Claim C6, as stated: one or more bare \<open>@Parameter\<close> markers on a method add exactly one
  \<open>swagger_param\<close> entry, however many markers there are. A method with two markers gets
  two entries.
\<close>

theorem java_two_markers_two_entries:
  "map parameters (java_analyze ts_reference (analyzer_on ''java'' java_two_markers))
     = [[swagger_param, swagger_param]]"
  by code_simp

text \<open>
  Claim C6, amended. For a method with a formal-parameter list (without one the parameter
  list is empty), the analyzer appends to the entries of the formal parameters one synthetic optional Query parameter named
  \<open>swagger_param\<close>, with empty declared type, for every capture of the name \<open>Parameter\<close> in
  the method's modifiers, whatever the formal parameters and their annotations are; under
  the reference executor that is one entry for every \<open>@Parameter\<close> annotation node in the
  modifiers, so \<open>k\<close> occurrences give \<open>k\<close> entries, and a method with a single bare marker
  gets exactly one.
\<close>

theorem java_one_swagger_param_per_marker:
  "(child_of_type method_node ''modifiers'' = Some mm
    \<longrightarrow> parse_java_parameters Q self (Some ps) method_node =
           List.map_filter formal_parameter
             (map snd (correlate (root_node self) [''formal_parameter'']
                         (Q ps JavaParamQuery (language_name self))))
           @ replicate (length (swagger_hits Q self mm)) swagger_param)
   \<and> parse_java_parameters Q self None method_node = []
   \<and> length (swagger_hits (ts_captures pp jp) self mm)
       = length (filter is_parameter_annotation (subtree mm))
   \<and> map parameters (java_analyze (ts_captures pp jp) (analyzer_on ''java'' java_one_marker))
       = [[swagger_param]]"
proof (intro conjI impI)
  assume "child_of_type method_node ''modifiers'' = Some mm"
  then show "parse_java_parameters Q self (Some ps) method_node =
           List.map_filter formal_parameter
             (map snd (correlate (root_node self) [''formal_parameter'']
                         (Q ps JavaParamQuery (language_name self))))
           @ replicate (length (swagger_hits Q self mm)) swagger_param"
    by (rule parse_java_parameters_swagger)
next
  show "parse_java_parameters Q self None method_node = []"
    by (simp add: parse_java_parameters_def)
next
  show "length (swagger_hits (ts_captures pp jp) self mm)
       = length (filter is_parameter_annotation (subtree mm))"
    by (rule swagger_hits_reference)
next
  show "map parameters (java_analyze (ts_captures pp jp) (analyzer_on ''java'' java_one_marker))
       = [[swagger_param]]"
    by code_simp
qed

theorem java_one_swagger_param_per_marker_witness:
  "child_of_type (at java_one_marker [0,2,1]) ''modifiers'' = Some (at java_one_marker [0,2,1,0])
   \<and> parse_java_parameters ts_reference (analyzer_on ''java'' java_one_marker)
        (Some (at java_one_marker [0,2,1,3])) (at java_one_marker [0,2,1])
       = [swagger_param]"
proof -
  have h: "child_of_type (at java_one_marker [0,2,1]) ''modifiers''
             = Some (at java_one_marker [0,2,1,0])"
    by code_simp
  have r: "List.map_filter formal_parameter
             (map snd (correlate (root_node (analyzer_on ''java'' java_one_marker))
                         [''formal_parameter'']
                         (ts_reference (at java_one_marker [0,2,1,3]) JavaParamQuery
                            (language_name (analyzer_on ''java'' java_one_marker)))))
           @ replicate (length (swagger_hits ts_reference (analyzer_on ''java'' java_one_marker)
                                  (at java_one_marker [0,2,1,0]))) swagger_param
           = [swagger_param]"
    by code_simp
  from java_one_swagger_param_per_marker
         [of "at java_one_marker [0,2,1]" "at java_one_marker [0,2,1,0]" ts_reference
             "analyzer_on ''java'' java_one_marker" "at java_one_marker [0,2,1,3]"] h
  have "parse_java_parameters ts_reference (analyzer_on ''java'' java_one_marker)
          (Some (at java_one_marker [0,2,1,3])) (at java_one_marker [0,2,1])
        = List.map_filter formal_parameter
             (map snd (correlate (root_node (analyzer_on ''java'' java_one_marker))
                         [''formal_parameter'']
                         (ts_reference (at java_one_marker [0,2,1,3]) JavaParamQuery
                            (language_name (analyzer_on ''java'' java_one_marker)))))
           @ replicate (length (swagger_hits ts_reference (analyzer_on ''java'' java_one_marker)
                                  (at java_one_marker [0,2,1,0]))) swagger_param"
    by blast
  with r h show ?thesis by simp
qed


subsection \<open>The Node.js analyzer\<close>

lemma scan_handler_no_param_name:
  assumes "\<forall>cap \<in> set caps. snd cap \<noteq> ''param_name''"
  shows "scan_handler caps ps found_params current_type = Inr (ps, found_params)"
  using assms
proof (induction caps arbitrary: current_type)
  case Nil
  then show ?case by simp
next
  case (Cons cap caps)
  obtain n nm where cap: "cap = (n, nm)" by (cases cap)
  from Cons.prems have nm: "nm \<noteq> ''param_name''" and rest: "\<forall>c \<in> set caps. snd c \<noteq> ''param_name''"
    by (simp_all add: cap)
  show ?case unfolding cap using nm Cons.IH[OF rest] by simp
qed

lemma parse_node_parameters_returns:
  assumes "route_labels_only Q self"
  shows "\<exists>ps. parse_node_parameters Q self handler_node pth = Inr ps"
proof (cases handler_node)
  case None
  then show ?thesis by (simp add: parse_node_parameters_def)
next
  case (Some h)
  have "\<forall>cap \<in> set (Q h NodeRouteQuery (language_name self)). snd cap \<noteq> ''param_name''"
    using assms unfolding route_labels_only_def by fastforce
  from scan_handler_no_param_name[OF this] Some show ?thesis
    by (simp add: parse_node_parameters_def Let_def)
qed

lemma parse_node_parameters_no_query:
  assumes "route_labels_only Q self"
      and "parse_node_parameters Q self handler_node pth = Inr ps"
  shows "\<forall>p \<in> set ps. param_type p \<noteq> QUERY"
proof (cases handler_node)
  case None
  with assms(2) show ?thesis by (simp add: parse_node_parameters_def)
next
  case (Some h)
  have "\<forall>cap \<in> set (Q h NodeRouteQuery (language_name self)). snd cap \<noteq> ''param_name''"
    using assms(1) unfolding route_labels_only_def by fastforce
  from scan_handler_no_param_name[OF this] Some assms(2)
  have "ps = path_parameters pth \<or> ps = path_parameters pth @ [body_param]"
    by (auto simp: parse_node_parameters_def Let_def split: if_splits)
  moreover have "\<forall>p \<in> set (path_parameters pth). param_type p = PATH"
    by (simp add: path_parameters_def)
  moreover have "param_type body_param = BODY"
    by (simp add: body_param_def)
  ultimately show ?thesis by fastforce
qed

lemma route_call_match_labels:
  assumes "cap \<in> set (route_call_match c)"
  shows "snd cap \<in> {''endpoint_node'', ''_obj'', ''method'', ''args''}"
proof (cases "field_child c ''function'' ''member_expression''")
  case None
  then have "route_call_match c = []" unfolding route_call_match_def by simp
  with assms show ?thesis by simp
next
  case f: (Some f)
  show ?thesis
  proof (cases "field_child c ''arguments'' ''arguments''")
    case None
    with f have "route_call_match c = []" unfolding route_call_match_def by simp
    with assms show ?thesis by simp
  next
    case a: (Some a)
    show ?thesis
    proof (cases "field_child f ''object'' ''identifier''")
      case None
      with f a have "route_call_match c = []" unfolding route_call_match_def by simp
      with assms show ?thesis by simp
    next
      case obj: (Some obj)
      show ?thesis
      proof (cases "field_child f ''property'' ''property_identifier''")
        case None
        with f a obj have "route_call_match c = []" unfolding route_call_match_def by simp
        with assms show ?thesis by simp
      next
        case (Some prp)
        with f a obj have "route_call_match c = [] \<or> route_call_match c =
            [(c, ''endpoint_node''), (obj, ''_obj''), (prp, ''method''), (a, ''args'')]"
          unfolding route_call_match_def by simp
        with assms show ?thesis by auto
      qed
    qed
  qed
qed

lemma ts_captures_route_labels: "route_labels_only (ts_captures pp jp) self"
proof -
  have "match_at NodeRouteQuery = route_call_match"
    by (rule ext) (simp add: match_at_def)
  then show ?thesis
    unfolding route_labels_only_def ts_captures_def using route_call_match_labels by auto
qed

lemma node_endpoint_cases:
  assumes "map_of data ''endpoint_node'' = Some en"
      and "map_of data ''method'' = Some mn" and "map_of data ''args'' = Some an"
  shows "node_endpoint Q self data =
           (if route_path (arg_children an) = [] then Inr None
            else (case parse_node_parameters Q self (route_handler (arg_children an))
                         (route_path (arg_children an)) of
                    Inl e \<Rightarrow> Inl e
                  | Inr ps \<Rightarrow>
                      Inr (Some \<lparr> file_path = [],
                                  handler_name = route_handler_name (route_handler (arg_children an)),
                                  http_method = upper (ntext (snd mn)),
                                  path = route_path (arg_children an),
                                  line_number = start_row (snd en) + 1,
                                  snippet = ntext (snd en),
                                  parameters = ps,
                                  auth_mechanisms = [] \<rparr>)))"
  using assms by (simp add: node_endpoint_def Let_def)

lemma node_first_literal:
  assumes "map_of data ''endpoint_node'' = Some en"
      and "map_of data ''method'' = Some mn" and "map_of data ''args'' = Some an"
  shows "first_literal_is_path Q self data an"
proof (cases "find (\<lambda>child. ntype (snd child) \<in> set [''string_literal'', ''string''])
                (arg_children an)")
  case None
  then have "route_path (arg_children an) = []" by (simp add: route_path_def)
  with None show ?thesis
    by (simp add: first_literal_is_path_def node_endpoint_cases[OF assms])
next
  case (Some s)
  then have rp: "route_path (arg_children an) = strip (squote @ dquote @ backtick) (ntext (snd s))"
    by (simp add: route_path_def)
  show ?thesis
  proof (cases "strip (squote @ dquote @ backtick) (ntext (snd s)) = []")
    case True
    with Some rp show ?thesis
      by (simp add: first_literal_is_path_def node_endpoint_cases[OF assms])
  next
    case False
    have 1: "node_endpoint Q self data \<noteq> Inr None"
      using False rp by (simp add: node_endpoint_cases[OF assms] split: sum.splits)
    have 2: "\<forall>e. node_endpoint Q self data = Inr (Some e)
                \<longrightarrow> path e = strip (squote @ dquote @ backtick) (ntext (snd s))"
      using False rp by (auto simp: node_endpoint_cases[OF assms] split: sum.splits)
    have 3: "route_labels_only Q self \<longrightarrow> (\<exists>e. node_endpoint Q self data = Inr (Some e))"
    proof
      assume "route_labels_only Q self"
      from parse_node_parameters_returns[OF this] obtain ps where
        "parse_node_parameters Q self (route_handler (arg_children an))
           (route_path (arg_children an)) = Inr ps" by blast
      with False rp show "\<exists>e. node_endpoint Q self data = Inr (Some e)"
        by (simp add: node_endpoint_cases[OF assms])
    qed
    from False Some 1 2 3 show ?thesis by (simp add: first_literal_is_path_def)
  qed
qed

lemma route_handler_none:
  assumes "\<forall>c \<in> set args. ntype (snd c) \<notin> {''arrow_function'', ''function_expression'', ''identifier''}"
  shows "route_handler args = None"
  using assms by (auto simp: route_handler_def find_None_iff)

lemma node_endpoints_eq:
  assumes "node_endpoints Q self ds = Inr es"
  shows "es = concat (map (\<lambda>data. case node_endpoint Q self data of
                                      Inr (Some e) \<Rightarrow> [e] | _ \<Rightarrow> []) ds)"
  using assms
proof (induction ds arbitrary: es)
  case Nil
  then show ?case by simp
next
  case (Cons d ds)
  from Cons.prems obtain r es' where
    r: "node_endpoint Q self d = Inr r" and es': "node_endpoints Q self ds = Inr es'"
    and es: "es = (case r of None \<Rightarrow> [] | Some e \<Rightarrow> [e]) @ es'"
    by (auto split: sum.splits)
  from Cons.IH[OF es'] r es show ?case by (cases r) simp_all
qed


text \<open>
  Claim C3. For \<open>router.get('/users/:id', (req,res)=>{ req.query.sort; req.body; })\<close> the
  claim expects three parameters: Path \<open>id\<close>, Query \<open>sort\<close> and Body \<open>body\<close>. The code
  returns one Endpoint with path \<open>/users/:id\<close> and two parameters: the required Path
  parameter \<open>id\<close> and the optional Body parameter \<open>body\<close>. The scan of the handler body
  runs the route-call query again, whose labels are never \<open>param_type\<close> or \<open>param_name\<close>, so
  no Query parameter can come out of it (lemma \<open>parse_node_parameters_no_query\<close>).
\<close>

theorem js_users_route_has_two_parameters:
  "map_sum id (map (\<lambda>e. (path e, parameters e)))
     (nodejs_analyze (ts_captures pp jp) (analyzer_on ''javascript'' js_users))
   = Inr [(''/users/:id'',
           [\<lparr> name = ''id'', param_type = PATH, data_type = ''Any'', required = True \<rparr>,
            \<lparr> name = ''body'', param_type = BODY, data_type = ''Object'', required = False \<rparr>])]"
  by code_simp

text \<open>
  Claim C8, as stated: when a string literal is present among the arguments of a route
  call, the first one becomes the Endpoint's path. In \<open>app.get('', handler)\<close> a string
  literal is present, and the analyzer returns no Endpoint.
\<close>

theorem js_empty_literal_no_endpoint:
  "find (\<lambda>child. ntype (snd child) \<in> set [''string_literal'', ''string''])
         (arg_children (at js_empty_literal [0,0,1])) = Some (at js_empty_literal [0,0,1,1])
   \<and> nodejs_analyze ts_reference (analyzer_on ''javascript'' js_empty_literal) = Inr []"
  by code_simp

text \<open>
  Claim C8, amended. For every route call (a group holding the call, its method and its
  argument list): if no named argument is a string literal, the call gives no Endpoint and
  no error; otherwise the first string literal in argument order, with the quote characters
  stripped from its ends, is the path, and the call is discarded as well when that path is
  empty; when it is not empty the call is not discarded and every Endpoint returned for it
  has that path. The Endpoints of the analyzer are those of its groups, in order. In
  particular \<open>app.get(handler)\<close> gives no Endpoint and \<open>app.get('/a', '/b', handler)\<close> gives
  one Endpoint, with path \<open>/a\<close>.
\<close>

theorem node_path_is_first_string_literal:
  "(map_of data ''endpoint_node'' = Some en \<and> map_of data ''method'' = Some mn
      \<and> map_of data ''args'' = Some an
    \<longrightarrow> first_literal_is_path Q self data an)
   \<and> (nodejs_analyze Q self = Inr es
        \<longrightarrow> es = concat (map (\<lambda>data. case node_endpoint Q self data of
                                        Inr (Some e) \<Rightarrow> [e] | _ \<Rightarrow> [])
                         (map snd (node_captures (root_node self)
                            (Q ([], root_node self) NodeRouteQuery (language_name self))))))
   \<and> route_labels_only (ts_captures pp jp) self
   \<and> nodejs_analyze (ts_captures pp jp) (analyzer_on ''javascript'' js_no_literal) = Inr []
   \<and> map_sum id (map path)
        (nodejs_analyze (ts_captures pp jp) (analyzer_on ''javascript'' js_two_literals))
      = Inr [''/a'']"
proof (intro conjI impI)
  assume "map_of data ''endpoint_node'' = Some en \<and> map_of data ''method'' = Some mn
      \<and> map_of data ''args'' = Some an"
  then show "first_literal_is_path Q self data an"
    using node_first_literal by blast
next
  assume "nodejs_analyze Q self = Inr es"
  then show "es = concat (map (\<lambda>data. case node_endpoint Q self data of
                                        Inr (Some e) \<Rightarrow> [e] | _ \<Rightarrow> [])
                         (map snd (node_captures (root_node self)
                            (Q ([], root_node self) NodeRouteQuery (language_name self)))))"
    unfolding nodejs_analyze_def by (rule node_endpoints_eq)
next
  show "route_labels_only (ts_captures pp jp) self"
    by (rule ts_captures_route_labels)
next
  show "nodejs_analyze (ts_captures pp jp) (analyzer_on ''javascript'' js_no_literal) = Inr []"
    by code_simp
next
  show "map_sum id (map path)
        (nodejs_analyze (ts_captures pp jp) (analyzer_on ''javascript'' js_two_literals))
      = Inr [''/a'']"
    by code_simp
qed

theorem node_path_is_first_string_literal_witness:
  "map_of (first_route_group ts_reference (analyzer_on ''javascript'' js_two_literals))
      ''endpoint_node'' = Some (at js_two_literals [0,0])
   \<and> map_of (first_route_group ts_reference (analyzer_on ''javascript'' js_two_literals))
      ''method'' = Some (at js_two_literals [0,0,0,2])
   \<and> map_of (first_route_group ts_reference (analyzer_on ''javascript'' js_two_literals))
      ''args'' = Some (at js_two_literals [0,0,1])
   \<and> first_literal_is_path ts_reference (analyzer_on ''javascript'' js_two_literals)
        (first_route_group ts_reference (analyzer_on ''javascript'' js_two_literals))
        (at js_two_literals [0,0,1])"
proof -
  have h: "map_of (first_route_group ts_reference (analyzer_on ''javascript'' js_two_literals))
      ''endpoint_node'' = Some (at js_two_literals [0,0])
   \<and> map_of (first_route_group ts_reference (analyzer_on ''javascript'' js_two_literals))
      ''method'' = Some (at js_two_literals [0,0,0,2])
   \<and> map_of (first_route_group ts_reference (analyzer_on ''javascript'' js_two_literals))
      ''args'' = Some (at js_two_literals [0,0,1])"
    by code_simp
  with node_path_is_first_string_literal
         [of "first_route_group ts_reference (analyzer_on ''javascript'' js_two_literals)"
             "at js_two_literals [0,0]" "at js_two_literals [0,0,0,2]"
             "at js_two_literals [0,0,1]" ts_reference
             "analyzer_on ''javascript'' js_two_literals"]
  show ?thesis by blast
qed

text \<open>
  Claim C10, as stated: a route call whose arguments contain a string literal but no
  identifier, arrow function or function expression still gives an Endpoint. \<open>app.use('')\<close>
  is such a call, and the analyzer returns no Endpoint for it.
\<close>

theorem js_empty_literal_no_handler_no_endpoint:
  "find (\<lambda>child. ntype (snd child) \<in> set [''string_literal'', ''string''])
         (arg_children (at js_empty_no_handler [0,0,1])) = Some (at js_empty_no_handler [0,0,1,1])
   \<and> route_handler (arg_children (at js_empty_no_handler [0,0,1])) = None
   \<and> nodejs_analyze ts_reference (analyzer_on ''javascript'' js_empty_no_handler) = Inr []"
  by code_simp

text \<open>
  Claim C10, amended. For every route call whose named arguments give a non-empty path
  (the first string literal, stripped of its quote characters) and include no identifier,
  arrow function or function expression, the analyzer emits an Endpoint with handler name
  \<open>unknown_handler\<close> and an empty parameter list, whatever the path contains: no Path
  parameter is derived from its \<open>:\<close>-prefixed segments. In particular
  \<open>app.get('/users/:id')\<close> gives one Endpoint, with handler \<open>unknown_handler\<close>, path
  \<open>/users/:id\<close> and no parameter.
\<close>

theorem node_route_without_handler:
  "(map_of data ''endpoint_node'' = Some en \<and> map_of data ''method'' = Some mn
      \<and> map_of data ''args'' = Some an
      \<and> (\<forall>c \<in> set (arg_children an).
            ntype (snd c) \<notin> {''arrow_function'', ''function_expression'', ''identifier''})
      \<and> route_path (arg_children an) \<noteq> []
    \<longrightarrow> node_endpoint Q self data =
          Inr (Some \<lparr> file_path = [], handler_name = ''unknown_handler'',
                       http_method = upper (ntext (snd mn)),
                       path = route_path (arg_children an),
                       line_number = start_row (snd en) + 1,
                       snippet = ntext (snd en),
                       parameters = [], auth_mechanisms = [] \<rparr>))
   \<and> map_sum id (map (\<lambda>e. (handler_name e, path e, parameters e)))
        (nodejs_analyze (ts_captures pp jp) (analyzer_on ''javascript'' js_no_handler))
      = Inr [(''unknown_handler'', ''/users/:id'', [])]"
proof (intro conjI impI)
  assume a: "map_of data ''endpoint_node'' = Some en \<and> map_of data ''method'' = Some mn
      \<and> map_of data ''args'' = Some an
      \<and> (\<forall>c \<in> set (arg_children an).
            ntype (snd c) \<notin> {''arrow_function'', ''function_expression'', ''identifier''})
      \<and> route_path (arg_children an) \<noteq> []"
  then have d: "map_of data ''endpoint_node'' = Some en" "map_of data ''method'' = Some mn"
      "map_of data ''args'' = Some an"
    and p: "route_path (arg_children an) \<noteq> []"
    by simp_all
  from a have "route_handler (arg_children an) = None"
    using route_handler_none by blast
  with p show "node_endpoint Q self data =
          Inr (Some \<lparr> file_path = [], handler_name = ''unknown_handler'',
                       http_method = upper (ntext (snd mn)),
                       path = route_path (arg_children an),
                       line_number = start_row (snd en) + 1,
                       snippet = ntext (snd en),
                       parameters = [], auth_mechanisms = [] \<rparr>)"
    by (simp add: node_endpoint_cases[OF d] parse_node_parameters_def route_handler_name_def)
next
  show "map_sum id (map (\<lambda>e. (handler_name e, path e, parameters e)))
        (nodejs_analyze (ts_captures pp jp) (analyzer_on ''javascript'' js_no_handler))
      = Inr [(''unknown_handler'', ''/users/:id'', [])]"
    by code_simp
qed

theorem node_route_without_handler_witness:
  "map_of (first_route_group ts_reference (analyzer_on ''javascript'' js_no_handler))
      ''endpoint_node'' = Some (at js_no_handler [0,0])
   \<and> map_of (first_route_group ts_reference (analyzer_on ''javascript'' js_no_handler))
      ''method'' = Some (at js_no_handler [0,0,0,2])
   \<and> map_of (first_route_group ts_reference (analyzer_on ''javascript'' js_no_handler))
      ''args'' = Some (at js_no_handler [0,0,1])
   \<and> list_all (\<lambda>c. ntype (snd c) \<noteq> ''arrow_function''
                      \<and> ntype (snd c) \<noteq> ''function_expression''
                      \<and> ntype (snd c) \<noteq> ''identifier'')
         (arg_children (at js_no_handler [0,0,1]))
   \<and> route_path (arg_children (at js_no_handler [0,0,1])) = ''/users/:id''
   \<and> map_sum id (map_option (\<lambda>e. (handler_name e, parameters e)))
        (node_endpoint ts_reference (analyzer_on ''javascript'' js_no_handler)
           (first_route_group ts_reference (analyzer_on ''javascript'' js_no_handler)))
      = Inr (Some (''unknown_handler'', []))"
proof -
  have h: "map_of (first_route_group ts_reference (analyzer_on ''javascript'' js_no_handler))
      ''endpoint_node'' = Some (at js_no_handler [0,0])
   \<and> map_of (first_route_group ts_reference (analyzer_on ''javascript'' js_no_handler))
      ''method'' = Some (at js_no_handler [0,0,0,2])
   \<and> map_of (first_route_group ts_reference (analyzer_on ''javascript'' js_no_handler))
      ''args'' = Some (at js_no_handler [0,0,1])
   \<and> list_all (\<lambda>c. ntype (snd c) \<noteq> ''arrow_function''
                      \<and> ntype (snd c) \<noteq> ''function_expression''
                      \<and> ntype (snd c) \<noteq> ''identifier'')
         (arg_children (at js_no_handler [0,0,1]))"
    by code_simp
  have p: "route_path (arg_children (at js_no_handler [0,0,1])) = ''/users/:id''"
    by code_simp
  then have p': "route_path (arg_children (at js_no_handler [0,0,1])) \<noteq> []"
    by simp
  from h have q: "\<forall>c \<in> set (arg_children (at js_no_handler [0,0,1])).
         ntype (snd c) \<notin> {''arrow_function'', ''function_expression'', ''identifier''}"
    by (simp add: list_all_iff)
  from node_route_without_handler
         [of "first_route_group ts_reference (analyzer_on ''javascript'' js_no_handler)"
             "at js_no_handler [0,0]" "at js_no_handler [0,0,0,2]" "at js_no_handler [0,0,1]"
             ts_reference "analyzer_on ''javascript'' js_no_handler"] h q p'
  have "node_endpoint ts_reference (analyzer_on ''javascript'' js_no_handler)
           (first_route_group ts_reference (analyzer_on ''javascript'' js_no_handler))
        = Inr (Some \<lparr> file_path = [], handler_name = ''unknown_handler'',
                       http_method = upper (ntext (snd (at js_no_handler [0,0,0,2]))),
                       path = route_path (arg_children (at js_no_handler [0,0,1])),
                       line_number = start_row (snd (at js_no_handler [0,0])) + 1,
                       snippet = ntext (snd (at js_no_handler [0,0])),
                       parameters = [], auth_mechanisms = [] \<rparr>)"
    by blast
  with h p show ?thesis by simp
qed


subsection \<open>The Python analyzer\<close>

lemma apply_capture_keeps:
  "handler_name (apply_capture t d e cap) = handler_name e
   \<and> file_path (apply_capture t d e cap) = file_path e"
proof (cases cap)
  case (Pair n nm)
  show ?thesis
  proof (cases "climb t (\<lambda>c. fst c = d) n")
    case None
    with Pair show ?thesis unfolding apply_capture_def by simp
  next
    case (Some a)
    with Pair show ?thesis unfolding apply_capture_def by simp
  qed
qed

lemma foldl_apply_capture_keeps:
  "handler_name (foldl (apply_capture t d) e caps) = handler_name e
   \<and> file_path (foldl (apply_capture t d) e caps) = file_path e"
  by (induction caps arbitrary: e) (simp_all add: apply_capture_keeps)

lemma set_update_subset:
  "x \<in> set (AList.update k v al) \<Longrightarrow> x = (k, v) \<or> x \<in> set al"
  by (induction al) (auto split: if_splits)

lemma endpoints_map_ok_update:
  assumes "endpoints_map_ok m" and "handler_name e = k" and "file_path e = []"
  shows "endpoints_map_ok (AList.update k e m)"
proof -
  have "distinct (map fst (AList.update k e m))"
    using assms(1) by (simp add: endpoints_map_ok_def distinct_update)
  moreover have "list_all (\<lambda>(k, e). handler_name e = k \<and> file_path e = []) (AList.update k e m)"
    unfolding list_all_iff
  proof
    fix x assume "x \<in> set (AList.update k e m)"
    then have "x = (k, e) \<or> x \<in> set m" by (rule set_update_subset)
    then show "case x of (k, e) \<Rightarrow> handler_name e = k \<and> file_path e = []"
      using assms by (auto simp: endpoints_map_ok_def list_all_iff)
  qed
  ultimately show ?thesis by (simp add: endpoints_map_ok_def)
qed

lemma endpoints_map_ok_lookup:
  assumes "endpoints_map_ok m" and "map_of m k = Some e"
  shows "handler_name e = k \<and> file_path e = []"
proof -
  from assms(2) have "(k, e) \<in> set m" by (rule map_of_SomeD)
  with assms(1) show ?thesis by (auto simp: endpoints_map_ok_def list_all_iff)
qed

lemma py_step_ok:
  assumes "endpoints_map_ok (fst st)" and "py_step Q self st cap = Inr st'"
  shows "endpoints_map_ok (fst st')"
proof -
  obtain m pr where st: "st = (m, pr)" by (cases st)
  obtain n nm where cap: "cap = (n, nm)" by (cases cap)
  show ?thesis
  proof (cases "climb (root_node self) (\<lambda>c. ntype (snd c) = ''decorator'') n")
    case None
    with assms(2) st cap have "st' = st" unfolding py_step_def by simp
    with assms(1) show ?thesis by simp
  next
    case d: (Some d)
    show ?thesis
    proof (cases "fst d \<in> set pr")
      case True
      with assms(2) st cap d have "st' = st" unfolding py_step_def by simp
      with assms(1) show ?thesis by simp
    next
      case nproc: False
      show ?thesis
      proof (cases "decorated_function (root_node self) d")
        case (Inl e)
        with assms(2) st cap d nproc have False unfolding py_step_def by simp
        then show ?thesis ..
      next
        case (Inr r)
        show ?thesis
        proof (cases r)
          case None
          with Inr assms(2) st cap d nproc have "st' = st" unfolding py_step_def by simp
          with assms(1) show ?thesis by simp
        next
          case en: (Some en)
          show ?thesis
          proof (cases "child_by_field_name en ''name''")
            case None
            with en Inr assms(2) st cap d nproc have "st' = (m, fst d # pr)"
              unfolding py_step_def by (simp add: Let_def)
            with assms(1) st show ?thesis by simp
          next
            case hn: (Some hn)
            let ?fresh = "\<lparr> file_path = [], handler_name = ntext (snd hn),
                             http_method = [], path = [],
                             line_number = start_row (snd en) + 1,
                             snippet = ntext (snd en),
                             parameters = parse_python_parameters Q self
                               (child_by_field_name en ''parameters''),
                             auth_mechanisms = [] \<rparr>"
            let ?e = "case map_of m (ntext (snd hn)) of Some e \<Rightarrow> e | None \<Rightarrow> ?fresh"
            let ?e' = "foldl (apply_capture (root_node self) (fst d)) ?e
                         (Q ([], root_node self) PyRouteQuery (language_name self))"
            have st': "st' = (AList.update (ntext (snd hn)) ?e' m, fst d # pr)"
              using hn en Inr assms(2) st cap d nproc unfolding py_step_def by (simp add: Let_def)
            have "handler_name ?e = ntext (snd hn) \<and> file_path ?e = []"
              using assms(1) st endpoints_map_ok_lookup[of m "ntext (snd hn)"]
              by (cases "map_of m (ntext (snd hn))") simp_all
            then have "handler_name ?e' = ntext (snd hn) \<and> file_path ?e' = []"
              by (simp add: foldl_apply_capture_keeps)
            with assms(1) st st' show ?thesis
              using endpoints_map_ok_update by simp
          qed
        qed
      qed
    qed
  qed
qed

lemma py_loop_ok:
  assumes "endpoints_map_ok (fst st)" and "py_loop Q self caps st = Inr st'"
  shows "endpoints_map_ok (fst st')"
  using assms
proof (induction caps arbitrary: st)
  case Nil
  then show ?case by simp
next
  case (Cons cap caps)
  from Cons.prems(2) obtain st1 where s1: "py_step Q self st cap = Inr st1"
      and r: "py_loop Q self caps st1 = Inr st'"
    by (cases "py_step Q self st cap") simp_all
  from py_step_ok[OF Cons.prems(1) s1] have "endpoints_map_ok (fst st1)" .
  from Cons.IH[OF this r] show ?case .
qed

lemma python_analyze_ok:
  assumes "python_analyze Q self = Inr es"
  shows "distinct (map handler_name es) \<and> (\<forall>e \<in> set es. file_path e = [])"
proof -
  from assms obtain m pr where
    l: "py_loop Q self (Q ([], root_node self) PyRouteQuery (language_name self)) ([], []) = Inr (m, pr)"
    and es: "es = map snd m"
    unfolding python_analyze_def
    by (cases "py_loop Q self (Q ([], root_node self) PyRouteQuery (language_name self)) ([], [])")
       (auto split: prod.splits)
  have "endpoints_map_ok (fst ([], []))" by (simp add: endpoints_map_ok_def)
  from py_loop_ok[OF this l] have ok: "endpoints_map_ok m" by simp
  then have "map handler_name (map snd m) = map fst m"
    by (auto simp: endpoints_map_ok_def list_all_iff)
  moreover from ok have "distinct (map fst m)" by (simp add: endpoints_map_ok_def)
  ultimately have "distinct (map handler_name es)" by (simp only: es)
  moreover from ok es have "\<forall>e \<in> set es. file_path e = []"
    by (auto simp: endpoints_map_ok_def list_all_iff)
  ultimately show ?thesis by blast
qed

text \<open>
  Claim C1. A function decorated with \<open>@app.get("/items/{id}")\<close> and
  \<open>@app.post("/items/{id}")\<close> should yield exactly two Endpoints that share the handler
  name. The code keeps its Endpoints in a dictionary keyed by the handler name, so for every
  executor and every tree the handler names of the Endpoints it returns are pairwise
  distinct: two Endpoints of one function are never returned. On the tree of the source the
  analyzer returns no Endpoint at all, because the parent of a decorator is a
  \<open>decorated_definition\<close>, which the loop skips. On a tree of the shape the loop looks for,
  with the decorators as children of the function definition, it returns one Endpoint, in
  which the captures of the second decorator have overwritten those of the first.
\<close>

theorem python_at_most_one_endpoint_per_handler:
  "python_analyze (ts_captures pp jp) (analyzer_on ''python'' py_two_decorators) = Inr []
   \<and> map_sum id (map (\<lambda>e. (handler_name e, http_method e, path e)))
        (python_analyze (ts_captures pp jp) (analyzer_on ''python'' py_two_decorators_flat))
      = Inr [(''f'', ''POST'', ''/items/{id}'')]
   \<and> (case python_analyze Q self of
          Inl err \<Rightarrow> True
        | Inr es \<Rightarrow> distinct (map handler_name es))"
proof (intro conjI)
  show "python_analyze (ts_captures pp jp) (analyzer_on ''python'' py_two_decorators) = Inr []"
    by code_simp
next
  show "map_sum id (map (\<lambda>e. (handler_name e, http_method e, path e)))
        (python_analyze (ts_captures pp jp) (analyzer_on ''python'' py_two_decorators_flat))
      = Inr [(''f'', ''POST'', ''/items/{id}'')]"
    by code_simp
next
  show "case python_analyze Q self of
          Inl err \<Rightarrow> True
        | Inr es \<Rightarrow> distinct (map handler_name es)"
    using python_analyze_ok by (cases "python_analyze Q self") auto
qed


subsection \<open>The analyzer factory\<close>

































end
